theory Spec2Isabelle
  imports Complex_Main "HOL-Library.Word" "HOL-Library.Signed_Division"
begin

section \<open>Go's \<open>time.Time\<close>, as far as the booking code uses it\<close>

text \<open>
  The booking code uses four operations of Go's standard \<open>time\<close> package:
  \<open>time.Parse(time.RFC3339, s)\<close>, \<open>t.IsZero()\<close>, \<open>t.Weekday()\<close> and
  \<open>t.Format("2006-01-02")\<close>. The package is not part of the repository; it is modelled
  here by its documented meaning. A \<open>Time\<close> is an instant (seconds and nanoseconds since
  1970-01-01T00:00:00Z) together with the UTC offset of its location, in seconds east of
  Greenwich. Every time the program handles comes out of an RFC 3339 parse or is the
  zero value, so a fixed offset is all a location ever is.
\<close>

record Time =
  unixSec :: int
  nsec :: nat
  offset :: int

text \<open>Go's \<open>time.Weekday\<close>: an integer enumeration starting with Sunday = 0.\<close>

datatype Weekday = Sunday | Monday | Tuesday | Wednesday | Thursday | Friday | Saturday

fun int_of_Weekday :: "Weekday \<Rightarrow> int" where
  "int_of_Weekday Sunday = 0"
| "int_of_Weekday Monday = 1"
| "int_of_Weekday Tuesday = 2"
| "int_of_Weekday Wednesday = 3"
| "int_of_Weekday Thursday = 4"
| "int_of_Weekday Friday = 5"
| "int_of_Weekday Saturday = 6"

definition Weekday_of_int :: "int \<Rightarrow> Weekday" where
  "Weekday_of_int k =
     (if k = 0 then Sunday else if k = 1 then Monday else if k = 2 then Tuesday
      else if k = 3 then Wednesday else if k = 4 then Thursday
      else if k = 5 then Friday else Saturday)"

text \<open>
  The proleptic Gregorian calendar on day numbers, day 0 being 1970-01-01. Years are
  counted from March so that the leap day is the last day of the year; 719468 is the
  number of days from 0000-03-01 to 1970-01-01 and 146097 the length of a 400-year cycle.
\<close>

definition days_from_civil :: "int \<Rightarrow> int \<Rightarrow> int \<Rightarrow> int" where
  "days_from_civil y m d =
     (let y' = (if m \<le> 2 then y - 1 else y);
          era = y' div 400;
          yoe = y' - era * 400;
          doy = (153 * (if m > 2 then m - 3 else m + 9) + 2) div 5 + d - 1;
          doe = yoe * 365 + yoe div 4 - yoe div 100 + doy
      in era * 146097 + doe - 719468)"

definition civil_from_days :: "int \<Rightarrow> int \<times> int \<times> int" where
  "civil_from_days z0 =
     (let z = z0 + 719468;
          era = z div 146097;
          doe = z - era * 146097;
          yoe = (doe - doe div 1460 + doe div 36524 - doe div 146096) div 365;
          doy = doe - (365 * yoe + yoe div 4 - yoe div 100);
          mp = (5 * doy + 2) div 153;
          d = doy - (153 * mp + 2) div 5 + 1;
          m = (if mp < 10 then mp + 3 else mp - 9);
          y = yoe + era * 400
      in (if m \<le> 2 then y + 1 else y, m, d))"

text \<open>The day number of a time in its own location (the wall-clock day).\<close>

definition local_day :: "Time \<Rightarrow> int" where
  "local_day t = (unixSec t + offset t) div 86400"

text \<open>\<open>t.Weekday()\<close>: the day of the week of the wall-clock day; 1970-01-01 was a Thursday.\<close>

definition Weekday :: "Time \<Rightarrow> Weekday" where
  "Weekday t = Weekday_of_int ((local_day t + 4) mod 7)"

text \<open>
  \<open>t.IsZero()\<close>: the instant is January 1, year 1, 00:00:00 UTC, whatever the location.
\<close>

definition IsZero :: "Time \<Rightarrow> bool" where
  "IsZero t = (unixSec t = - 62135596800 \<and> nsec t = 0)"

text \<open>The zero value \<open>time.Time{}\<close>, which a JSON body without the field leaves in place.\<close>

definition zeroTime :: Time where
  "zeroTime = \<lparr>unixSec = - 62135596800, nsec = 0, offset = 0\<rparr>"

text \<open>\<open>t.UTC()\<close>: the same instant, read in UTC.\<close>

definition UTC :: "Time \<Rightarrow> Time" where
  "UTC t = t\<lparr>offset := 0\<rparr>"

text \<open>
  \<open>time.Date(year, month, day, hour, min, sec, nsec, loc)\<close> for fields in their normal
  ranges (which is all the parser passes), \<open>loc\<close> given by its offset.
\<close>

definition Date :: "int \<Rightarrow> int \<Rightarrow> int \<Rightarrow> int \<Rightarrow> int \<Rightarrow> int \<Rightarrow> nat \<Rightarrow> int \<Rightarrow> Time" where
  "Date y m d hh mm ss ns off =
     \<lparr>unixSec = days_from_civil y m d * 86400 + hh * 3600 + mm * 60 + ss - off,
      nsec = ns, offset = off\<rparr>"

subsection \<open>Formatting with the layout \<open>2006-01-02\<close>\<close>

definition digit_char :: "nat \<Rightarrow> char" where
  "digit_char n = char_of (48 + n)"

fun digits :: "nat \<Rightarrow> string" where
  "digits n = (if n < 10 then [digit_char n] else digits (n div 10) @ [digit_char (n mod 10)])"

declare digits.simps [simp del]

text \<open>
  \<open>appendInt(b, x, width)\<close> of the time package: the decimal digits of \<open>x\<close>, padded with
  zeros on the left to \<open>width\<close>, after a minus sign when \<open>x\<close> is negative.
\<close>

definition appendInt :: "int \<Rightarrow> nat \<Rightarrow> string" where
  "appendInt x width =
     (let ds = digits (nat \<bar>x\<bar>)
      in (if x < 0 then ''-'' else '''') @ replicate (width - length ds) (CHR ''0'') @ ds)"

definition Format_date :: "Time \<Rightarrow> string" where
  "Format_date t =
     (case civil_from_days (local_day t) of
        (y, m, d) \<Rightarrow> appendInt y 4 @ ''-'' @ appendInt m 2 @ ''-'' @ appendInt d 2)"

subsection \<open>Parsing with the layout \<open>time.RFC3339\<close>\<close>

text \<open>
  \<open>time.Parse(time.RFC3339, s)\<close> first tries the package's dedicated RFC 3339 parser
  \<open>parseRFC3339\<close> and, when that refuses the string, falls back to the general parser
  driven by the layout \<open>2006-01-02T15:04:05Z07:00\<close>. Both are modelled. The general
  parser accepts what the dedicated one accepts and a little more: an hour of one digit,
  a comma before the fraction of a second, and zone offsets up to 24 hours and 60
  minutes. The offset written in the string becomes the location of the result.
\<close>

definition isDigit :: "char \<Rightarrow> bool" where
  "isDigit c = (48 \<le> (of_char c :: nat) \<and> (of_char c :: nat) \<le> 57)"

definition digit_val :: "char \<Rightarrow> nat" where
  "digit_val c = of_char c - 48"

definition atoi :: "string \<Rightarrow> nat" where
  "atoi s = foldl (\<lambda>x c. x * 10 + digit_val c) 0 s"

definition parseUint :: "string \<Rightarrow> nat \<Rightarrow> nat \<Rightarrow> nat option" where
  "parseUint s lo hi =
     (if \<not> list_all isDigit s then None
      else if atoi s < lo \<or> hi < atoi s then None
      else Some (atoi s))"

definition isLeap :: "nat \<Rightarrow> bool" where
  "isLeap year = (year mod 4 = 0 \<and> (year mod 100 \<noteq> 0 \<or> year mod 400 = 0))"

definition daysIn :: "nat \<Rightarrow> nat \<Rightarrow> nat" where
  "daysIn m year =
     (if m = 2 then (if isLeap year then 29 else 28)
      else if m = 4 \<or> m = 6 \<or> m = 9 \<or> m = 11 then 30 else 31)"

text \<open>
  \<open>parseNanoseconds\<close>: at most nine digits of the fraction count, scaled to nanoseconds.
\<close>

definition parseNanoseconds :: "string \<Rightarrow> nat" where
  "parseNanoseconds ds = atoi (take 9 ds) * 10 ^ (9 - length (take 9 ds))"

text \<open>
  The dedicated parser \<open>parseRFC3339\<close>: fixed-width fields, each checked against its
  range, the day against the length of the month; a fraction after a period; then \<open>Z\<close>
  or a numeric offset of at most 23 hours and 59 minutes.
\<close>

definition parseZone :: "string \<Rightarrow> int option" where
  "parseZone z =
     (if z = ''Z'' then Some 0
      else if length z \<noteq> 6 then None
      else case parseUint (take 2 (drop 1 z)) 0 23 of
        None \<Rightarrow> None
      | Some hr \<Rightarrow>
       (case parseUint (take 2 (drop 4 z)) 0 59 of
          None \<Rightarrow> None
        | Some mm \<Rightarrow>
            if \<not> ((z ! 0 = CHR ''-'' \<or> z ! 0 = CHR ''+'') \<and> z ! 3 = CHR '':'') then None
            else if z ! 0 = CHR ''-'' then Some (- ((int hr * 60 + int mm) * 60))
            else Some ((int hr * 60 + int mm) * 60)))"

definition parseRFC3339 :: "string \<Rightarrow> Time option" where
  "parseRFC3339 s =
     (if length s < 19 then None
      else case parseUint (take 4 s) 0 9999 of
        None \<Rightarrow> None
      | Some year \<Rightarrow>
      (case parseUint (take 2 (drop 5 s)) 1 12 of
        None \<Rightarrow> None
      | Some month \<Rightarrow>
      (case parseUint (take 2 (drop 8 s)) 1 (daysIn month year) of
        None \<Rightarrow> None
      | Some day \<Rightarrow>
      (case parseUint (take 2 (drop 11 s)) 0 23 of
        None \<Rightarrow> None
      | Some hour \<Rightarrow>
      (case parseUint (take 2 (drop 14 s)) 0 59 of
        None \<Rightarrow> None
      | Some minute \<Rightarrow>
      (case parseUint (take 2 (drop 17 s)) 0 59 of
        None \<Rightarrow> None
      | Some sec \<Rightarrow>
          if \<not> (s ! 4 = CHR ''-'' \<and> s ! 7 = CHR ''-'' \<and> s ! 10 = CHR ''T''
                 \<and> s ! 13 = CHR '':'' \<and> s ! 16 = CHR '':'') then None
          else
            let rest = drop 19 s;
                fraction = (if 2 \<le> length rest \<and> rest ! 0 = CHR ''.'' \<and> isDigit (rest ! 1)
                        then takeWhile isDigit (drop 1 rest) else []);
                zone = (if fraction = [] then rest else drop (1 + length fraction) rest)
            in (case parseZone zone of
                  None \<Rightarrow> None
                | Some zoneOffset \<Rightarrow>
                    Some (Date (int year) (int month) (int day) (int hour) (int minute)
                            (int sec) (parseNanoseconds fraction) zoneOffset))))))))"

text \<open>
  The general parser \<open>parse\<close>, for the layout \<open>time.RFC3339\<close>. It consumes the string
  from the left, one element of the layout after the other. \<open>getnum\<close> reads a number of
  two digits, or of one digit where the layout does not fix the width; \<open>skip\<close> consumes
  the literal text between two fields.
\<close>

definition isDigitAt :: "string \<Rightarrow> nat \<Rightarrow> bool" where
  "isDigitAt s i = (i < length s \<and> isDigit (s ! i))"

definition getnum :: "string \<Rightarrow> bool \<Rightarrow> (nat \<times> string) option" where
  "getnum s fixed =
     (if \<not> isDigitAt s 0 then None
      else if \<not> isDigitAt s 1
        then (if fixed then None else Some (digit_val (s ! 0), drop 1 s))
      else Some (digit_val (s ! 0) * 10 + digit_val (s ! 1), drop 2 s))"

definition skip :: "string \<Rightarrow> string \<Rightarrow> string option" where
  "skip s literal =
     (if length literal \<le> length s \<and> take (length literal) s = literal
      then Some (drop (length literal) s) else None)"

definition commaOrPeriod :: "char \<Rightarrow> bool" where
  "commaOrPeriod c = (c = CHR ''.'' \<or> c = CHR '','')"

text \<open>
  The elements \<open>2006-01-02T\<close>: a year of four digits, a month of two digits within 1 to
  12, a day of two digits (checked against the month at the end), and the literals.
\<close>

definition parse_date_part :: "string \<Rightarrow> ((nat \<times> nat \<times> nat) \<times> string) option" where
  "parse_date_part s =
     (if length s < 4 \<or> \<not> list_all isDigit (take 4 s) then None
      else case skip (drop 4 s) ''-'' of
        None \<Rightarrow> None
      | Some s1 \<Rightarrow>
      (case getnum s1 True of
        None \<Rightarrow> None
      | Some (month, s2) \<Rightarrow>
          if month \<le> 0 \<or> 12 < month then None
          else (case skip s2 ''-'' of
            None \<Rightarrow> None
          | Some s3 \<Rightarrow>
          (case getnum s3 True of
            None \<Rightarrow> None
          | Some (day, s4) \<Rightarrow>
          (case skip s4 ''T'' of
            None \<Rightarrow> None
          | Some s5 \<Rightarrow> Some ((atoi (take 4 s), month, day), s5))))))"

text \<open>
  The elements \<open>15:04:05\<close>: an hour of one or two digits below 24, a minute and a second
  of two digits below 60, and, though the layout has none, a fraction of a second after a
  period or a comma.
\<close>

definition parse_clock_part ::
  "string \<Rightarrow> ((nat \<times> nat \<times> nat \<times> nat) \<times> string) option" where
  "parse_clock_part s =
     (case getnum s False of
        None \<Rightarrow> None
      | Some (hour, s1) \<Rightarrow>
          if 24 \<le> hour then None
          else (case skip s1 '':'' of
            None \<Rightarrow> None
          | Some s2 \<Rightarrow>
          (case getnum s2 True of
            None \<Rightarrow> None
          | Some (minute, s3) \<Rightarrow>
              if 60 \<le> minute then None
              else (case skip s3 '':'' of
                None \<Rightarrow> None
              | Some s4 \<Rightarrow>
              (case getnum s4 True of
                None \<Rightarrow> None
              | Some (sec, s5) \<Rightarrow>
                  if 60 \<le> sec then None
                  else if 2 \<le> length s5 \<and> commaOrPeriod (s5 ! 0) \<and> isDigit (s5 ! 1)
                  then Some ((hour, minute, sec,
                              parseNanoseconds (takeWhile isDigit (drop 1 s5))),
                             drop (1 + length (takeWhile isDigit (drop 1 s5))) s5)
                  else Some ((hour, minute, sec, 0), s5))))))"

text \<open>
  The element \<open>Z07:00\<close>: the letter \<open>Z\<close>, or a sign, two digits, a colon and two digits.
  The hours may be up to 24 and the minutes up to 60.
\<close>

definition parse_zone_part :: "string \<Rightarrow> (int \<times> string) option" where
  "parse_zone_part s =
     (if 1 \<le> length s \<and> s ! 0 = CHR ''Z'' then Some (0, drop 1 s)
      else if length s < 6 then None
      else if s ! 3 \<noteq> CHR '':'' then None
      else case getnum (take 2 (drop 1 s)) True of
        None \<Rightarrow> None
      | Some (hr, r1) \<Rightarrow>
      (case getnum (take 2 (drop 4 s)) True of
        None \<Rightarrow> None
      | Some (mm, r2) \<Rightarrow>
          if 24 < hr \<or> 60 < mm then None
          else if s ! 0 = CHR ''+'' then Some ((int hr * 60 + int mm) * 60, drop 6 s)
          else if s ! 0 = CHR ''-'' then Some (- ((int hr * 60 + int mm) * 60), drop 6 s)
          else None))"

text \<open>
  The whole layout: nothing may follow the zone, and the day must exist in its month.
\<close>

definition parse_layout :: "string \<Rightarrow> Time option" where
  "parse_layout s =
     (case parse_date_part s of
        None \<Rightarrow> None
      | Some ((year, month, day), s1) \<Rightarrow>
      (case parse_clock_part s1 of
        None \<Rightarrow> None
      | Some ((hour, minute, sec, ns), s2) \<Rightarrow>
      (case parse_zone_part s2 of
        None \<Rightarrow> None
      | Some (zoneOffset, s3) \<Rightarrow>
          if s3 \<noteq> [] then None
          else if day < 1 \<or> daysIn month year < day then None
          else Some (Date (int year) (int month) (int day) (int hour) (int minute)
                       (int sec) ns zoneOffset))))"

text \<open>\<open>time.Parse(time.RFC3339, s)\<close>: the dedicated parser, then the general one.\<close>

definition Parse_RFC3339 :: "string \<Rightarrow> Time option" where
  "Parse_RFC3339 s =
     (case parseRFC3339 s of
        Some t \<Rightarrow> Some t
      | None \<Rightarrow> parse_layout s)"

section \<open>The database service (\<open>internal/database/database.go\<close>)\<close>

type_synonym int64 = "64 word"

text \<open>
  Go's \<open>error\<close> values, one constructor for each place where the code under study makes
  or passes on an error, and the two run-time panics its arithmetic could raise.
\<close>

datatype error =
    ErrHttpGet
  | ErrReadBody
  | ErrUnmarshal
  | ErrQuery
  | ErrScan
  | ErrRows
  | ErrNoDestinations
  | ErrMissingDates
  | ErrInsert
  | PanicIndexOutOfRange
  | PanicDivideByZero

text \<open>One element of the decoded feed: the anonymous struct of \<open>CheckLaunchpadAvailability\<close>.\<close>

record launch =
  Launchpad :: string
  Name :: string
  DateLocal :: string
  ID :: string

text \<open>
  What the feed answers at the moment of the call: \<open>http.Get\<close> fails, reading the body
  fails, the body is not a JSON array of launches, or it decodes to a list of launches.
\<close>

datatype feed_fetch = GetFails | ReadFails | UnmarshalFails | Launches "launch list"

text \<open>The scan of the feed: the second \<open>for\<close> loop of \<open>CheckLaunchpadAvailability\<close>.\<close>

fun scan_launches :: "launch list \<Rightarrow> string \<Rightarrow> Time \<Rightarrow> bool" where
  "scan_launches [] launchpadID launchDate = True"
| "scan_launches (l # ls) launchpadID launchDate =
     (case Parse_RFC3339 (DateLocal l) of
        None \<Rightarrow> scan_launches ls launchpadID launchDate
      | Some dateLocal \<Rightarrow>
          if Launchpad l = launchpadID \<and> Format_date dateLocal = Format_date launchDate
          then False
          else scan_launches ls launchpadID launchDate)"

definition CheckLaunchpadAvailability :: "feed_fetch \<Rightarrow> string \<Rightarrow> Time \<Rightarrow> error + bool" where
  "CheckLaunchpadAvailability f launchpadID launchDate =
     (case f of
        GetFails \<Rightarrow> Inl ErrHttpGet
      | ReadFails \<Rightarrow> Inl ErrReadBody
      | UnmarshalFails \<Rightarrow> Inl ErrUnmarshal
      | Launches launches \<Rightarrow> Inr (scan_launches launches launchpadID launchDate))"

text \<open>
  What \<open>SELECT id FROM destinations ORDER BY id\<close> answers: the query fails, or it
  yields rows, each of which scans into an \<open>int64\<close> or fails to, and a final
  \<open>rows.Err()\<close> that may report an error of the iteration.
\<close>

datatype row = Row int64 | BadRow

datatype dest_query = QueryFails | Rows "row list" bool

fun scan_rows :: "row list \<Rightarrow> int64 list \<Rightarrow> error + int64 list" where
  "scan_rows [] destinationIDs = Inr destinationIDs"
| "scan_rows (Row i # rs) destinationIDs = scan_rows rs (destinationIDs @ [i])"
| "scan_rows (BadRow # rs) destinationIDs = Inl ErrScan"

text \<open>Go's \<open>%\<close> on \<open>int\<close> (remainder of the truncated division) and slice indexing.\<close>

definition go_rem :: "int \<Rightarrow> int \<Rightarrow> error + int" where
  "go_rem a b = (if b = 0 then Inl PanicDivideByZero else Inr (a smod b))"

definition go_index :: "'a list \<Rightarrow> int \<Rightarrow> error + 'a" where
  "go_index xs i =
     (if 0 \<le> i \<and> i < int (length xs) then Inr (xs ! nat i) else Inl PanicIndexOutOfRange)"

text \<open>The local variable \<open>weekday\<close> of \<open>CheckDestinationSchedule\<close>.\<close>

definition weekday_of :: "Time \<Rightarrow> int" where
  "weekday_of launchDate = (int_of_Weekday (Weekday launchDate) + 6) smod 7"

text \<open>The part of \<open>CheckDestinationSchedule\<close> after the rows are collected.\<close>

definition check_rotation :: "int64 list \<Rightarrow> int64 \<Rightarrow> Time \<Rightarrow> error + bool" where
  "check_rotation destinationIDs destinationID launchDate =
     (if length destinationIDs = 0 then Inl ErrNoDestinations
      else case go_rem (weekday_of launchDate) (int (length destinationIDs)) of
        Inl p \<Rightarrow> Inl p
      | Inr index \<Rightarrow>
         (case go_index destinationIDs index of
            Inl p \<Rightarrow> Inl p
          | Inr expectedDestinationID \<Rightarrow>
              if destinationID \<noteq> expectedDestinationID then Inr False else Inr True))"

definition CheckDestinationSchedule ::
  "dest_query \<Rightarrow> int64 \<Rightarrow> string \<Rightarrow> Time \<Rightarrow> error + bool" where
  "CheckDestinationSchedule q destinationID launchpadID launchDate =
     (case q of
        QueryFails \<Rightarrow> Inl ErrQuery
      | Rows rs rowsErr \<Rightarrow>
         (case scan_rows rs [] of
            Inl e \<Rightarrow> Inl e
          | Inr destinationIDs \<Rightarrow>
              if rowsErr then Inl ErrRows
              else check_rotation destinationIDs destinationID launchDate))"

section \<open>The booking handler (package \<open>server\<close>)\<close>

text \<open>
  The handlers and the rate limiter of package \<open>server\<close> stand in the sources behind the
  tests of the database package (\<open>internal/database/database_test.go\<close>, from the line
  \<open>package server\<close> on); the \<open>Booking\<close> struct is \<open>internal/models/booking.go\<close>.
\<close>

record Booking =
  ID :: int
  FirstName :: string
  LastName :: string
  Gender :: string
  Birthday :: Time
  LaunchpadID :: string
  DestinationID :: int64
  LaunchDate :: Time

text \<open>
  The collaborators behind the \<open>Service\<close> interface, as they answer while one request is
  handled: the launch feed, the destinations table, and the \<open>INSERT ... RETURNING id\<close> of
  \<open>CreateBooking\<close>.
\<close>

record world =
  feed :: feed_fetch
  destinations :: dest_query
  insert_result :: "error + int"

text \<open>The methods of \<open>s.db\<close> a request calls, in the order of the calls.\<close>

datatype call = CallCheckLaunchpadAvailability | CallCheckDestinationSchedule | CallCreateBooking

definition validateBooking :: "world \<Rightarrow> Booking \<Rightarrow> call list \<times> (error + bool)" where
  "validateBooking w booking =
     (let launchDate = LaunchDate booking; birthday = Birthday booking in
      if IsZero launchDate \<or> IsZero birthday then ([], Inl ErrMissingDates)
      else case CheckLaunchpadAvailability (feed w) (LaunchpadID booking) launchDate of
        Inl err \<Rightarrow> ([CallCheckLaunchpadAvailability], Inl err)
      | Inr isAvailable \<Rightarrow>
          if \<not> isAvailable then ([CallCheckLaunchpadAvailability], Inr False)
          else (case CheckDestinationSchedule (destinations w) (DestinationID booking)
                       (LaunchpadID booking) launchDate of
              Inl err \<Rightarrow>
                ([CallCheckLaunchpadAvailability, CallCheckDestinationSchedule], Inl err)
            | Inr isDestinationValid \<Rightarrow>
                if \<not> isDestinationValid
                then ([CallCheckLaunchpadAvailability, CallCheckDestinationSchedule], Inr False)
                else ([CallCheckLaunchpadAvailability, CallCheckDestinationSchedule], Inr True)))"

definition CreateBooking :: "world \<Rightarrow> Booking \<Rightarrow> error + Booking" where
  "CreateBooking w booking =
     (case insert_result w of Inl err \<Rightarrow> Inl err | Inr i \<Rightarrow> Inr (booking\<lparr>ID := i\<rparr>))"

text \<open>
  A response is either \<open>http.Error(w, message, code)\<close> or a status code with the booking
  encoded as JSON.
\<close>

datatype response = HttpError string nat | Json nat Booking

text \<open>
  \<open>CreateBookingHandler\<close>. The request body is given by what the JSON decoder makes of it:
  \<open>None\<close> when decoding fails, the decoded booking otherwise.
\<close>

definition CreateBookingHandler :: "world \<Rightarrow> Booking option \<Rightarrow> call list \<times> response" where
  "CreateBookingHandler w decoded =
     (case decoded of
        None \<Rightarrow> ([], HttpError ''Invalid request payload'' 400)
      | Some booking \<Rightarrow>
         (case validateBooking w booking of
            (calls, Inl err) \<Rightarrow> (calls, HttpError ''Internal Server Error'' 500)
          | (calls, Inr valid) \<Rightarrow>
              if \<not> valid
              then (calls, HttpError ''Flight is cancelled due to scheduling conflicts.'' 400)
              else (case CreateBooking w booking of
                  Inl err \<Rightarrow>
                    (calls @ [CallCreateBooking], HttpError ''Internal Server Error'' 500)
                | Inr created \<Rightarrow> (calls @ [CallCreateBooking], Json 201 created))))"

section \<open>Rate limiting (package \<open>server\<close>)\<close>

text \<open>
  Modelled from the spec: the token bucket \<open>rate.Limiter\<close> with its constructor
  \<open>rate.NewLimiter\<close> and its method \<open>Allow\<close> belongs to the module
  \<open>golang.org/x/time/rate\<close>, whose code is not in the repository. The specification
  describes the state of a bucket as capacity, refill rate, current token count and
  last-refill timestamp; a bucket starts full, refills continuously at its rate up to its
  capacity, and an admission consumes one token when one is available and otherwise
  returns false with no side effect. Time is measured in seconds. The timestamp of a new
  bucket is immaterial, a full bucket gaining nothing from a refill.
\<close>

record Limiter =
  limit :: real
  burst :: nat
  tokens :: real
  lastRefill :: real

text \<open>
  Modelled from the spec: \<open>rate.NewLimiter(r, b)\<close>, a bucket of capacity \<open>b\<close> refilled at
  \<open>r\<close> tokens per second, created full.
\<close>

definition NewLimiter :: "real \<Rightarrow> nat \<Rightarrow> Limiter" where
  "NewLimiter r b = \<lparr>limit = r, burst = b, tokens = real b, lastRefill = 0\<rparr>"

text \<open>
  Modelled from the spec: the tokens a bucket holds at the time \<open>now\<close>, after the
  continuous refill since its timestamp, capped at the capacity. A clock reading before
  the timestamp adds nothing.
\<close>

definition advance :: "real \<Rightarrow> Limiter \<Rightarrow> real" where
  "advance now bk = min (real (burst bk)) (tokens bk + max 0 (now - lastRefill bk) * limit bk)"

text \<open>
  Modelled from the spec: \<open>limiter.Allow()\<close> at the time \<open>now\<close>. With at least one token
  it takes one and answers true; otherwise it answers false and leaves the bucket as it
  was.
\<close>

definition Allow :: "real \<Rightarrow> Limiter \<Rightarrow> bool \<times> Limiter" where
  "Allow now bk =
     (if 1 \<le> advance now bk
      then (True, bk\<lparr>tokens := advance now bk - 1, lastRefill := now\<rparr>)
      else (False, bk))"

text \<open>
  The registry \<open>visitors\<close>, a map from the remote address to the limiter of that address.
  The Go map holds pointers and \<open>Allow\<close> updates the limiter in place; each key has a
  limiter of its own, so the model writes the updated limiter back under its key.
\<close>

type_synonym visitors = "string \<rightharpoonup> Limiter"

definition getVisitor :: "string \<Rightarrow> visitors \<Rightarrow> Limiter \<times> visitors" where
  "getVisitor ip vs =
     (case vs ip of
        None \<Rightarrow> (NewLimiter 1 3, vs(ip \<mapsto> NewLimiter 1 3))
      | Some limiter \<Rightarrow> (limiter, vs))"

text \<open>
  A request as the middleware sees it: its \<open>RemoteAddr\<close> and the reading of the clock when
  its limiter is consulted.
\<close>

record request =
  RemoteAddr :: string
  now :: real

text \<open>
  \<open>rateLimitMiddleware\<close>: \<open>True\<close> when the request is passed on to the next handler,
  \<open>False\<close> when it is answered with 429 Too Many Requests.
\<close>

definition rateLimitMiddleware :: "request \<Rightarrow> visitors \<Rightarrow> bool \<times> visitors" where
  "rateLimitMiddleware r vs =
     (case getVisitor (RemoteAddr r) vs of
        (limiter, vs') \<Rightarrow>
          (case Allow (now r) limiter of
             (allowed, limiter') \<Rightarrow> (allowed, vs'(RemoteAddr r \<mapsto> limiter'))))"

text \<open>A sequence of requests through the middleware, one after the other.\<close>

fun serve :: "visitors \<Rightarrow> request list \<Rightarrow> bool list \<times> visitors" where
  "serve vs [] = ([], vs)"
| "serve vs (r # rs) =
     (case rateLimitMiddleware r vs of
        (allowed, vs') \<Rightarrow> (case serve vs' rs of (outs, vs'') \<Rightarrow> (allowed # outs, vs'')))"

section \<open>The validation with its effects\<close>

text \<open>
  Beyond its arguments the validation reads the package variable \<open>SpaceXAPIURL\<close>, the
  answer of the network to \<open>http.Get\<close> of that URL, and the destinations table behind
  \<open>s.db\<close>; it writes to the standard logger. A \<open>process\<close> holds these together with what
  else the server keeps: the outcome of the \<open>INSERT\<close> and the registry of the rate limiter.
  \<open>http_Get p u\<close> is what fetching, reading and decoding the URL \<open>u\<close> yields.
\<close>

text \<open>The lines the code prints with \<open>log.Printf\<close>, one constructor for each call.\<close>

datatype log_entry =
    LogReceived nat
  | LogLaunch nat launch
  | LogParseError string
  | LogQueryError
  | LogScanError
  | LogRowsError
  | LogDestinationIDs "int64 list"
  | LogWeekday int int int64
  | LogCompare int64 int64

text \<open>The state of the process.\<close>

record process =
  SpaceXAPIURL :: string
  http_Get :: "string \<Rightarrow> feed_fetch"
  db_destinations :: dest_query
  db_insert :: "error + int"
  visitors_registry :: visitors
  log_output :: "log_entry list"

text \<open>\<open>log.Printf\<close>: one more line at the end of the log.\<close>

definition log_Printf :: "log_entry \<Rightarrow> process \<Rightarrow> process" where
  "log_Printf e p = p\<lparr>log_output := log_output p @ [e]\<rparr>"

text \<open>The first \<open>for\<close> loop of \<open>CheckLaunchpadAvailability\<close>, which logs every launch.\<close>

fun log_launches :: "process \<Rightarrow> nat \<Rightarrow> launch list \<Rightarrow> process" where
  "log_launches p i [] = p"
| "log_launches p i (l # ls) = log_launches (log_Printf (LogLaunch i l) p) (Suc i) ls"

text \<open>
  The second loop, which logs each record it cannot parse and stops at the first
  conflict.
\<close>

fun run_scan_launches :: "process \<Rightarrow> launch list \<Rightarrow> string \<Rightarrow> Time \<Rightarrow> process \<times> (error + bool)" where
  "run_scan_launches p [] launchpadID launchDate = (p, Inr True)"
| "run_scan_launches p (l # ls) launchpadID launchDate =
     (case Parse_RFC3339 (DateLocal l) of
        None \<Rightarrow>
          run_scan_launches (log_Printf (LogParseError (launch.ID l)) p) ls launchpadID launchDate
      | Some dateLocal \<Rightarrow>
          if Launchpad l = launchpadID \<and> Format_date dateLocal = Format_date launchDate
          then (p, Inr False)
          else run_scan_launches p ls launchpadID launchDate)"

text \<open>\<open>CheckLaunchpadAvailability\<close>, from the read of \<open>SpaceXAPIURL\<close> on.\<close>

definition run_CheckLaunchpadAvailability ::
  "process \<Rightarrow> string \<Rightarrow> Time \<Rightarrow> process \<times> (error + bool)" where
  "run_CheckLaunchpadAvailability p launchpadID launchDate =
     (case http_Get p (SpaceXAPIURL p) of
        GetFails \<Rightarrow> (p, Inl ErrHttpGet)
      | ReadFails \<Rightarrow> (p, Inl ErrReadBody)
      | UnmarshalFails \<Rightarrow> (p, Inl ErrUnmarshal)
      | Launches launches \<Rightarrow>
          run_scan_launches
            (log_launches (log_Printf (LogReceived (length launches)) p) 0 launches)
            launches launchpadID launchDate)"

text \<open>\<open>CheckDestinationSchedule\<close>, with its log lines.\<close>

definition run_CheckDestinationSchedule ::
  "process \<Rightarrow> int64 \<Rightarrow> string \<Rightarrow> Time \<Rightarrow> process \<times> (error + bool)" where
  "run_CheckDestinationSchedule p destinationID launchpadID launchDate =
     (case db_destinations p of
        QueryFails \<Rightarrow> (log_Printf LogQueryError p, Inl ErrQuery)
      | Rows rs rowsErr \<Rightarrow>
         (case scan_rows rs [] of
            Inl e \<Rightarrow> (log_Printf LogScanError p, Inl e)
          | Inr destinationIDs \<Rightarrow>
              if rowsErr then (log_Printf LogRowsError p, Inl ErrRows)
              else if length destinationIDs = 0
                then (log_Printf (LogDestinationIDs destinationIDs) p, Inl ErrNoDestinations)
              else (case go_rem (weekday_of launchDate) (int (length destinationIDs)) of
                  Inl e \<Rightarrow> (log_Printf (LogDestinationIDs destinationIDs) p, Inl e)
                | Inr index \<Rightarrow>
                   (case go_index destinationIDs index of
                      Inl e \<Rightarrow> (log_Printf (LogDestinationIDs destinationIDs) p, Inl e)
                    | Inr expectedDestinationID \<Rightarrow>
                        (log_Printf (LogCompare destinationID expectedDestinationID)
                           (log_Printf (LogWeekday (weekday_of launchDate) index
                                          expectedDestinationID)
                              (log_Printf (LogDestinationIDs destinationIDs) p)),
                         if destinationID \<noteq> expectedDestinationID then Inr False
                         else Inr True)))))"

text \<open>\<open>validateBooking\<close>, the state passed from one call of the service to the next.\<close>

definition run_validateBooking ::
  "process \<Rightarrow> Booking \<Rightarrow> process \<times> call list \<times> (error + bool)" where
  "run_validateBooking p booking =
     (let launchDate = LaunchDate booking; birthday = Birthday booking in
      if IsZero launchDate \<or> IsZero birthday then (p, [], Inl ErrMissingDates)
      else case run_CheckLaunchpadAvailability p (LaunchpadID booking) launchDate of
        (p1, Inl err) \<Rightarrow> (p1, [CallCheckLaunchpadAvailability], Inl err)
      | (p1, Inr isAvailable) \<Rightarrow>
          if \<not> isAvailable then (p1, [CallCheckLaunchpadAvailability], Inr False)
          else (case run_CheckDestinationSchedule p1 (DestinationID booking)
                       (LaunchpadID booking) launchDate of
              (p2, Inl err) \<Rightarrow>
                (p2, [CallCheckLaunchpadAvailability, CallCheckDestinationSchedule], Inl err)
            | (p2, Inr isDestinationValid) \<Rightarrow>
                if \<not> isDestinationValid
                then (p2, [CallCheckLaunchpadAvailability, CallCheckDestinationSchedule],
                      Inr False)
                else (p2, [CallCheckLaunchpadAvailability, CallCheckDestinationSchedule],
                      Inr True)))"

text \<open>
  What the collaborators answer in a state of the process: the world in which the
  functions of the previous sections are evaluated.
\<close>

definition world_of :: "process \<Rightarrow> world" where
  "world_of p =
     \<lparr>feed = http_Get p (SpaceXAPIURL p), destinations = db_destinations p,
      insert_result = db_insert p\<rparr>"

section \<open>Auxiliary notions for the statements\<close>

text \<open>The requests of one remote address, arriving at the given clock readings.\<close>

definition requests_at :: "string \<Rightarrow> real list \<Rightarrow> request list" where
  "requests_at a ts = map (\<lambda>t. \<lparr>RemoteAddr = a, now = t\<rparr>) ts"

text \<open>The successive calls of \<open>Allow\<close> on one limiter, at the given clock readings.\<close>

fun admits :: "Limiter \<Rightarrow> real list \<Rightarrow> bool list \<times> Limiter" where
  "admits bk [] = ([], bk)"
| "admits bk (t # ts) =
     (case Allow t bk of
        (allowed, bk') \<Rightarrow> (case admits bk' ts of (outs, bk'') \<Rightarrow> (allowed # outs, bk'')))"

text \<open>The number of admitted requests among a list of outcomes.\<close>

definition count_admitted :: "bool list \<Rightarrow> nat" where
  "count_admitted outs = length (filter (\<lambda>allowed. allowed) outs)"

text \<open>
  What every limiter of the registry satisfies: it was made by \<open>rate.NewLimiter(1, 3)\<close>
  and holds between zero and three tokens.
\<close>

definition bucket_ok :: "Limiter \<Rightarrow> bool" where
  "bucket_ok bk = (limit bk = 1 \<and> burst bk = 3 \<and> 0 \<le> tokens bk \<and> tokens bk \<le> 3)"

text \<open>The outcomes that the address \<open>a\<close> sees among the outcomes of a run of requests.\<close>

definition observed :: "string \<Rightarrow> request list \<Rightarrow> bool list \<Rightarrow> bool list" where
  "observed a rs outs = map snd (filter (\<lambda>p. RemoteAddr (fst p) = a) (zip rs outs))"

text \<open>The state \<open>p'\<close> differs from \<open>p\<close> in nothing but the log.\<close>

definition only_logged :: "process \<Rightarrow> process \<Rightarrow> bool" where
  "only_logged p p' = (p'\<lparr>log_output := log_output p\<rparr> = p)"

section \<open>Data of the repository's tests\<close>

text \<open>
  The booking of \<open>TestCreateBookingHandler\<close>, the feed records of the three tests of
  \<open>CheckLaunchpadAvailability\<close>, and the seven destination rows of
  \<open>TestCheckDestinationSchedule\<close>.
\<close>

definition bookingData :: Booking where
  "bookingData = \<lparr>ID = 0, FirstName = ''Test'', LastName = ''User'', Gender = ''Non-binary'',
     Birthday = Date 1990 1 1 0 0 0 0 0, LaunchpadID = ''test_launchpad'', DestinationID = 1,
     LaunchDate = Date 2049 12 25 0 0 0 0 0\<rparr>"

definition launch_1 :: launch where
  "launch_1 = \<lparr>Launchpad = ''test_launchpad'', Name = ''Test Launch'',
     DateLocal = ''2049-12-25T00:00:00Z'', ID = ''launch_1''\<rparr>"

definition launch_2 :: launch where
  "launch_2 = \<lparr>Launchpad = ''test_launchpad'', Name = ''Another Launch'',
     DateLocal = ''2049-12-26T00:00:00Z'', ID = ''launch_2''\<rparr>"

definition launch_3 :: launch where
  "launch_3 = \<lparr>Launchpad = ''test_launchpad'', Name = ''Invalid Date Launch'',
     DateLocal = ''invalid-date-format'', ID = ''launch_3''\<rparr>"

definition sevenDestinations :: dest_query where
  "sevenDestinations = Rows [Row 1, Row 2, Row 3, Row 4, Row 5, Row 6, Row 7] False"

text \<open>A world whose feed holds the given launches, with the seven destinations.\<close>

definition testWorld :: "launch list \<Rightarrow> world" where
  "testWorld launches =
     \<lparr>feed = Launches launches, destinations = sevenDestinations, insert_result = Inr 1\<rparr>"

text \<open>A world whose feed cannot be fetched, and one whose destinations table is empty.\<close>

definition downWorld :: world where
  "downWorld = \<lparr>feed = GetFails, destinations = sevenDestinations, insert_result = Inr 1\<rparr>"

definition emptyWorld :: "launch list \<Rightarrow> world" where
  "emptyWorld launches =
     \<lparr>feed = Launches launches, destinations = Rows [] False, insert_result = Inr 1\<rparr>"

text \<open>A world with one launch on another day and the given answer of the destinations query.\<close>

definition queryWorld :: "dest_query \<Rightarrow> world" where
  "queryWorld q = \<lparr>feed = Launches [launch_2], destinations = q, insert_result = Inr 1\<rparr>"

text \<open>
  Two feed records that only the general parser accepts, both on the site and the day of
  the test booking: one with an hour of one digit, one with a zone offset of 24 hours.
\<close>

definition launch_short_hour :: launch where
  "launch_short_hour = \<lparr>Launchpad = ''test_launchpad'', Name = ''Short Hour Launch'',
     DateLocal = ''2049-12-25T1:00:00Z'', ID = ''launch_6''\<rparr>"

definition launch_day_offset :: launch where
  "launch_day_offset = \<lparr>Launchpad = ''test_launchpad'', Name = ''Day Offset Launch'',
     DateLocal = ''2049-12-25T12:00:00+24:00'', ID = ''launch_7''\<rparr>"

text \<open>
  Two states of the process with the same feed behind different URLs, different answers
  at every other URL, different logs, different registries and different outcomes of the
  insert.
\<close>

definition liveProcess :: process where
  "liveProcess =
     \<lparr>SpaceXAPIURL = ''https://api.spacexdata.com/v4/launches'',
      http_Get = (\<lambda>u. if u = ''https://api.spacexdata.com/v4/launches''
                        then Launches [launch_3, launch_2] else GetFails),
      db_destinations = sevenDestinations, db_insert = Inr 1,
      visitors_registry = Map.empty, log_output = []\<rparr>"

definition mockProcess :: process where
  "mockProcess =
     \<lparr>SpaceXAPIURL = ''http://127.0.0.1:8080'',
      http_Get = (\<lambda>u. Launches [launch_3, launch_2]),
      db_destinations = sevenDestinations, db_insert = Inl ErrInsert,
      visitors_registry = [''192.0.2.1:1234'' \<mapsto> NewLimiter 1 3],
      log_output = [LogQueryError]\<rparr>"

text \<open>
  Two feed records whose local date differs from the date of the same instant in UTC: one
  late in the evening west of Greenwich, one early in the morning east of it.
\<close>

definition launch_west :: launch where
  "launch_west = \<lparr>Launchpad = ''test_launchpad'', Name = ''Evening Launch'',
     DateLocal = ''2049-12-25T23:30:00-05:00'', ID = ''launch_4''\<rparr>"

definition launch_east :: launch where
  "launch_east = \<lparr>Launchpad = ''test_launchpad'', Name = ''Night Launch'',
     DateLocal = ''2049-12-26T01:00:00+03:00'', ID = ''launch_5''\<rparr>"

section \<open>Evaluation of the test data\<close>

lemmas parse_defs = Parse_RFC3339_def parseRFC3339_def parseUint_def isDigit_def atoi_def
  digit_val_def daysIn_def isLeap_def parseZone_def parseNanoseconds_def

lemmas layout_defs = parse_layout_def parse_date_part_def parse_clock_part_def
  parse_zone_part_def getnum_def isDigitAt_def skip_def commaOrPeriod_def

lemma Parse_launch_west: "Parse_RFC3339 ''2049-12-25T23:30:00-05:00'' = Some (Date 2049 12 25 23 30 0 0 (- 18000))"
  by (simp add: parse_defs)

lemma Parse_launch_east: "Parse_RFC3339 ''2049-12-26T01:00:00+03:00'' = Some (Date 2049 12 26 1 0 0 0 10800)"
  by (simp add: parse_defs)

lemma Parse_2049_12_25: "Parse_RFC3339 ''2049-12-25T00:00:00Z'' = Some (Date 2049 12 25 0 0 0 0 0)"
  by (simp add: parse_defs)

lemma Parse_invalid: "Parse_RFC3339 ''invalid-date-format'' = None"
  by (simp add: parse_defs layout_defs)

lemma Parse_2049_12_26: "Parse_RFC3339 ''2049-12-26T00:00:00Z'' = Some (Date 2049 12 26 0 0 0 0 0)"
  by (simp add: parse_defs)

lemma Format_2049_12_25: "Format_date (Date 2049 12 25 0 0 0 0 0) = ''2049-12-25''"
  by code_simp

lemma Format_west_local: "Format_date (Date 2049 12 25 23 30 0 0 (- 18000)) = ''2049-12-25''"
  by code_simp

lemma Format_west_UTC: "Format_date (UTC (Date 2049 12 25 23 30 0 0 (- 18000))) = ''2049-12-26''"
  by code_simp

lemma Format_east_local: "Format_date (Date 2049 12 26 1 0 0 0 10800) = ''2049-12-26''"
  by code_simp

lemma Format_2049_12_25_evening: "Format_date (Date 2049 12 25 22 0 0 0 0) = ''2049-12-25''"
  by code_simp

lemma Format_east_UTC: "Format_date (UTC (Date 2049 12 26 1 0 0 0 10800)) = ''2049-12-25''"
  by code_simp

lemma Format_2049_12_26: "Format_date (Date 2049 12 26 0 0 0 0 0) = ''2049-12-26''"
  by code_simp

lemma Parse_short_hour:
  "Parse_RFC3339 ''2049-12-25T1:00:00Z'' = Some (Date 2049 12 25 1 0 0 0 0)"
  by (simp add: parse_defs layout_defs)

lemma Parse_day_offset:
  "Parse_RFC3339 ''2049-12-25T12:00:00+24:00'' = Some (Date 2049 12 25 12 0 0 0 86400)"
  by (simp add: parse_defs layout_defs)

lemma Parse_comma_fraction:
  "Parse_RFC3339 ''2049-12-25T12:00:00,5Z'' = Some (Date 2049 12 25 12 0 0 500000000 0)"
  by (simp add: parse_defs layout_defs)

lemma Format_short_hour: "Format_date (Date 2049 12 25 1 0 0 0 0) = ''2049-12-25''"
  by code_simp

lemma Format_day_offset: "Format_date (Date 2049 12 25 12 0 0 0 86400) = ''2049-12-25''"
  by code_simp

lemma IsZero_test_dates: "\<not> IsZero (Date 2049 12 25 0 0 0 0 0) \<and> \<not> IsZero (Date 1990 1 1 0 0 0 0 0) \<and> IsZero zeroTime"
  by (simp add: IsZero_def Date_def days_from_civil_def zeroTime_def)

lemma east_same_instant: "unixSec (Date 2049 12 26 1 0 0 0 10800) = unixSec (Date 2049 12 25 22 0 0 0 0)"
  by (simp add: Date_def days_from_civil_def)

lemma west_a_day_later: "unixSec (Date 2049 12 25 23 30 0 0 (- 18000)) - unixSec (Date 2049 12 25 0 0 0 0 0) = 102600"
  by (simp add: Date_def days_from_civil_def)

section \<open>Properties of the destination rotation\<close>

lemma weekday_of_cases:
  "weekday_of t = (case Weekday t of Monday \<Rightarrow> 0 | Tuesday \<Rightarrow> 1 | Wednesday \<Rightarrow> 2
     | Thursday \<Rightarrow> 3 | Friday \<Rightarrow> 4 | Saturday \<Rightarrow> 5 | Sunday \<Rightarrow> 6)"
  by (cases "Weekday t") (simp_all add: weekday_of_def signed_modulo_int_def)

lemma weekday_of_range: "0 \<le> weekday_of t \<and> weekday_of t \<le> 6"
  by (cases "Weekday t") (simp_all add: weekday_of_cases)

lemma scan_rows_map_Row: "scan_rows (map Row ids) acc = Inr (acc @ ids)"
  by (induction ids arbitrary: acc) simp_all

lemma go_rem_weekday:
  assumes "0 < n"
  shows "go_rem (weekday_of t) (int n) = Inr (weekday_of t mod int n)"
  using assms weekday_of_range [of t]
  by (simp add: go_rem_def signed_modulo_int_def abs_of_nonneg sgn_if)

lemma check_rotation_nonempty:
  assumes "ids \<noteq> []"
  shows "check_rotation ids d t = Inr (d = ids ! nat (weekday_of t mod int (length ids)))"
proof -
  have n: "0 < length ids" using assms by simp
  have lo: "0 \<le> weekday_of t mod int (length ids)" using n by simp
  have hi: "weekday_of t mod int (length ids) < int (length ids)" using n by simp
  show ?thesis
    using assms lo hi by (simp add: check_rotation_def go_rem_weekday [OF n] go_index_def)
qed

lemma Weekday_2049_12_25: "Weekday (Date 2049 12 25 0 0 0 0 0) = Saturday"
  by (simp add: Weekday_def Date_def local_day_def days_from_civil_def Weekday_of_int_def)

lemma check_rotation_no_panic:
  "check_rotation ids d t \<noteq> Inl PanicIndexOutOfRange \<and> check_rotation ids d t \<noteq> Inl PanicDivideByZero"
proof (cases "ids = []")
  case True
  then show ?thesis by (simp add: check_rotation_def)
next
  case False
  then show ?thesis by (simp add: check_rotation_nonempty)
qed

lemma scan_rows_no_panic:
  "scan_rows rs acc \<noteq> Inl PanicIndexOutOfRange \<and> scan_rows rs acc \<noteq> Inl PanicDivideByZero"
  by (induction rs acc rule: scan_rows.induct) simp_all

text \<open>
  Claim C1. For every non-empty list of destination identifiers and every launch date,
  \<open>CheckDestinationSchedule\<close> numbers the weekday of the launch date from Monday = 0 to
  Sunday = 6, indexes the list at that number modulo its length, and answers true exactly
  when the requested destination is the identifier found there (false, the rotation
  mismatch, otherwise). With the destinations 1 to 7 and the launch date 2049-12-25, a
  Saturday, the expected destination is 6.
\<close>

theorem destination_rotation:
  assumes "destinationIDs \<noteq> []"
  shows "weekday_of launchDate =
           (case Weekday launchDate of Monday \<Rightarrow> 0 | Tuesday \<Rightarrow> 1 | Wednesday \<Rightarrow> 2
            | Thursday \<Rightarrow> 3 | Friday \<Rightarrow> 4 | Saturday \<Rightarrow> 5 | Sunday \<Rightarrow> 6)
       \<and> CheckDestinationSchedule (Rows (map Row destinationIDs) False) destinationID
            launchpadID launchDate
          = Inr (destinationID
                   = destinationIDs ! nat (weekday_of launchDate mod int (length destinationIDs)))
       \<and> CheckDestinationSchedule (Rows (map Row [1, 2, 3, 4, 5, 6, 7]) False) destinationID
            launchpadID (Date 2049 12 25 0 0 0 0 0)
          = Inr (destinationID = 6)"
proof -
  have a: "CheckDestinationSchedule (Rows (map Row ids) False) destinationID launchpadID t
      = check_rotation ids destinationID t" for ids t
    by (simp add: CheckDestinationSchedule_def scan_rows_map_Row)
  have w: "weekday_of (Date 2049 12 25 0 0 0 0 0) = 5"
    by (simp add: weekday_of_cases Weekday_2049_12_25)
  have c: "check_rotation [1, 2, 3, 4, 5, 6, 7] destinationID (Date 2049 12 25 0 0 0 0 0)
      = Inr (destinationID = 6)"
    by (simp add: check_rotation_nonempty w)
  have c': "CheckDestinationSchedule (Rows (map Row [1, 2, 3, 4, 5, 6, 7]) False) destinationID
            launchpadID (Date 2049 12 25 0 0 0 0 0) = Inr (destinationID = 6)"
    by (simp only: a c)
  have g: "CheckDestinationSchedule (Rows (map Row destinationIDs) False) destinationID
            launchpadID launchDate
          = Inr (destinationID
                   = destinationIDs ! nat (weekday_of launchDate mod int (length destinationIDs)))"
    using check_rotation_nonempty [OF assms] by (simp only: a)
  show ?thesis
    using g c' weekday_of_cases [of launchDate] by blast
qed

theorem destination_rotation_witness:
  "[1, 2, 3, 4, 5, 6, 7 :: int64] \<noteq> []
   \<and> weekday_of (Date 2049 12 25 0 0 0 0 0) = 5
   \<and> CheckDestinationSchedule (Rows (map Row [1, 2, 3, 4, 5, 6, 7]) False) 6 ''test_launchpad''
        (Date 2049 12 25 0 0 0 0 0) = Inr True
   \<and> CheckDestinationSchedule (Rows (map Row [1, 2, 3, 4, 5, 6, 7]) False) 1 ''test_launchpad''
        (Date 2049 12 25 0 0 0 0 0) = Inr False"
  using destination_rotation [of "[1, 2, 3, 4, 5, 6, 7]" "Date 2049 12 25 0 0 0 0 0" 6 "''test_launchpad''"]
    destination_rotation [of "[1, 2, 3, 4, 5, 6, 7]" "Date 2049 12 25 0 0 0 0 0" 1 "''test_launchpad''"]
  by (simp add: Weekday_2049_12_25)

text \<open>
  Claim C10. The rotation check never indexes out of bounds. The weekday number lies
  between 0 and 6; the empty list is rejected with the error "no destinations
  available" before any indexing; for a non-empty list the remainder is taken by a
  positive length, the index lies between 0 and the length, and the indexing succeeds. In
  no case does \<open>CheckDestinationSchedule\<close> end in an index or division panic.
\<close>

theorem rotation_index_in_bounds:
  "0 \<le> weekday_of launchDate \<and> weekday_of launchDate \<le> 6
   \<and> check_rotation [] destinationID launchDate = Inl ErrNoDestinations
   \<and> (destinationIDs \<noteq> [] \<longrightarrow>
        (\<exists>index. go_rem (weekday_of launchDate) (int (length destinationIDs)) = Inr index
           \<and> 0 \<le> index \<and> index < int (length destinationIDs)
           \<and> go_index destinationIDs index = Inr (destinationIDs ! nat index)))
   \<and> CheckDestinationSchedule q destinationID launchpadID launchDate \<noteq> Inl PanicIndexOutOfRange
   \<and> CheckDestinationSchedule q destinationID launchpadID launchDate \<noteq> Inl PanicDivideByZero"
proof -
  have r: "0 \<le> weekday_of launchDate \<and> weekday_of launchDate \<le> 6"
    by (rule weekday_of_range)
  have e: "check_rotation [] destinationID launchDate = Inl ErrNoDestinations"
    by (simp add: check_rotation_def)
  have i: "destinationIDs \<noteq> [] \<longrightarrow>
        (\<exists>index. go_rem (weekday_of launchDate) (int (length destinationIDs)) = Inr index
           \<and> 0 \<le> index \<and> index < int (length destinationIDs)
           \<and> go_index destinationIDs index = Inr (destinationIDs ! nat index))"
  proof
    assume "destinationIDs \<noteq> []"
    then have n: "0 < length destinationIDs" by simp
    let ?i = "weekday_of launchDate mod int (length destinationIDs)"
    have "0 \<le> ?i" and "?i < int (length destinationIDs)" using n by simp_all
    then show "\<exists>index. go_rem (weekday_of launchDate) (int (length destinationIDs)) = Inr index
           \<and> 0 \<le> index \<and> index < int (length destinationIDs)
           \<and> go_index destinationIDs index = Inr (destinationIDs ! nat index)"
      using go_rem_weekday [OF n, of launchDate] by (simp add: go_index_def)
  qed
  have p: "CheckDestinationSchedule q destinationID launchpadID launchDate \<noteq> Inl PanicIndexOutOfRange
   \<and> CheckDestinationSchedule q destinationID launchpadID launchDate \<noteq> Inl PanicDivideByZero"
    using check_rotation_no_panic scan_rows_no_panic
    by (auto simp: CheckDestinationSchedule_def split: dest_query.splits sum.splits)
  show ?thesis using r e i p by blast
qed

theorem rotation_index_in_bounds_witness:
  "[10, 20, 30 :: int64] \<noteq> []
   \<and> weekday_of (Date 2049 12 25 0 0 0 0 0) = 5
   \<and> go_rem 5 (int (length [10, 20, 30 :: int64])) = Inr 2
   \<and> go_index [10, 20, 30 :: int64] 2 = Inr 30
   \<and> CheckDestinationSchedule (Rows [Row 10, Row 20, Row 30] False) 30 ''test_launchpad''
        (Date 2049 12 25 0 0 0 0 0) = Inr True
   \<and> CheckDestinationSchedule (Rows [] False) 30 ''test_launchpad''
        (Date 2049 12 25 0 0 0 0 0) = Inl ErrNoDestinations"
  using rotation_index_in_bounds [of "Date 2049 12 25 0 0 0 0 0" 30 "[10, 20, 30]" "Rows [] False" "''test_launchpad''"]
  by (simp add: weekday_of_cases Weekday_2049_12_25 go_rem_def go_index_def
        signed_modulo_int_def CheckDestinationSchedule_def check_rotation_def)

section \<open>Properties of the launch-site check and of the validation\<close>

lemma scan_launches_iff:
  "scan_launches ls launchpadID launchDate =
     (\<not> (\<exists>l \<in> set ls. \<exists>t. Parse_RFC3339 (DateLocal l) = Some t \<and> Launchpad l = launchpadID
            \<and> Format_date t = Format_date launchDate))"
  by (induction ls) (auto split: option.splits)

lemma scan_launches_skip:
  assumes "Parse_RFC3339 (DateLocal l) = None"
  shows "scan_launches (xs @ l # ys) launchpadID launchDate
           = scan_launches (xs @ ys) launchpadID launchDate"
  using assms by (induction xs) (auto split: option.splits)

lemma scan_launches_answer:
  "CheckLaunchpadAvailability (Launches launches) launchpadID launchDate =
     Inr (\<not> (\<exists>l \<in> set launches. \<exists>dateLocal.
              Parse_RFC3339 (DateLocal l) = Some dateLocal \<and> Launchpad l = launchpadID
              \<and> Format_date dateLocal = Format_date launchDate))"
  by (simp add: CheckLaunchpadAvailability_def scan_launches_iff)

lemma validateBooking_present:
  assumes "\<not> IsZero (LaunchDate b)" and "\<not> IsZero (Birthday b)"
  shows "validateBooking w b =
     (case CheckLaunchpadAvailability (feed w) (LaunchpadID b) (LaunchDate b) of
        Inl err \<Rightarrow> ([CallCheckLaunchpadAvailability], Inl err)
      | Inr isAvailable \<Rightarrow>
          if \<not> isAvailable then ([CallCheckLaunchpadAvailability], Inr False)
          else (case CheckDestinationSchedule (destinations w) (DestinationID b)
                       (LaunchpadID b) (LaunchDate b) of
              Inl err \<Rightarrow>
                ([CallCheckLaunchpadAvailability, CallCheckDestinationSchedule], Inl err)
            | Inr isDestinationValid \<Rightarrow>
                ([CallCheckLaunchpadAvailability, CallCheckDestinationSchedule],
                 Inr isDestinationValid)))"
  using assms by (auto simp: validateBooking_def Let_def split: sum.splits)

lemma validateBooking_missing:
  assumes "IsZero (LaunchDate b) \<or> IsZero (Birthday b)"
  shows "validateBooking w b = ([], Inl ErrMissingDates)"
  using assms by (auto simp: validateBooking_def Let_def)

lemma scan_launch_1: "scan_launches [launch_1] ''test_launchpad'' (Date 2049 12 25 0 0 0 0 0) = False"
  by (simp add: launch_1_def Parse_2049_12_25)

lemma scan_launch_2: "scan_launches [launch_2] ''test_launchpad'' (Date 2049 12 25 0 0 0 0 0) = True"
  by (simp add: launch_2_def Parse_2049_12_26 Format_2049_12_25 Format_2049_12_26)

lemma scan_launch_3: "scan_launches [launch_3] ''test_launchpad'' (Date 2049 12 25 0 0 0 0 0) = True"
  by (simp add: launch_3_def Parse_invalid)

lemma seven_6: "CheckDestinationSchedule sevenDestinations d lp (Date 2049 12 25 0 0 0 0 0) = Inr (d = 6)"
proof -
  have "check_rotation [1, 2, 3, 4, 5, 6, 7] d (Date 2049 12 25 0 0 0 0 0) = Inr (d = 6)"
    by (simp add: check_rotation_nonempty weekday_of_cases Weekday_2049_12_25)
  then show ?thesis
    by (simp add: sevenDestinations_def CheckDestinationSchedule_def)
qed

lemma bookingData_present:
  "\<not> IsZero (LaunchDate bookingData) \<and> \<not> IsZero (Birthday bookingData)"
  using IsZero_test_dates by (simp add: bookingData_def)

lemma scan_rows_bad:
  assumes "BadRow \<in> set rs"
  shows "scan_rows rs acc = Inl ErrScan"
  using assms by (induction rs acc rule: scan_rows.induct) auto

lemma scan_rows_good:
  assumes "BadRow \<notin> set rs"
  shows "\<exists>ids. scan_rows rs acc = Inr (acc @ ids) \<and> length ids = length rs"
  using assms
proof (induction rs acc rule: scan_rows.induct)
  case (1 destinationIDs)
  then show ?case by simp
next
  case (2 i rs destinationIDs)
  then obtain ids where "scan_rows rs (destinationIDs @ [i]) = Inr ((destinationIDs @ [i]) @ ids)"
    and "length ids = length rs" by auto
  then have "scan_rows (Row i # rs) destinationIDs = Inr (destinationIDs @ (i # ids))
      \<and> length (i # ids) = length (Row i # rs)" by simp
  then show ?case by blast
next
  case (3 rs destinationIDs)
  then show ?case by simp
qed

lemma CheckDestinationSchedule_unavailable:
  shows "CheckDestinationSchedule QueryFails i lp d = Inl ErrQuery"
    and "BadRow \<in> set rs \<Longrightarrow> CheckDestinationSchedule (Rows rs e) i lp d = Inl ErrScan"
    and "BadRow \<notin> set rs \<Longrightarrow> CheckDestinationSchedule (Rows rs True) i lp d = Inl ErrRows"
    and "CheckDestinationSchedule (Rows [] False) i lp d = Inl ErrNoDestinations"
proof -
  show "CheckDestinationSchedule QueryFails i lp d = Inl ErrQuery"
    by (simp add: CheckDestinationSchedule_def)
  show "CheckDestinationSchedule (Rows rs e) i lp d = Inl ErrScan" if "BadRow \<in> set rs"
    using scan_rows_bad [OF that, of "[]"] by (simp add: CheckDestinationSchedule_def)
  show "CheckDestinationSchedule (Rows rs True) i lp d = Inl ErrRows" if "BadRow \<notin> set rs"
    using scan_rows_good [OF that, of "[]"] by (auto simp: CheckDestinationSchedule_def)
  show "CheckDestinationSchedule (Rows [] False) i lp d = Inl ErrNoDestinations"
    by (simp add: CheckDestinationSchedule_def check_rotation_def)
qed

lemma CheckDestinationSchedule_not_true:
  assumes "q = QueryFails \<or> (q = Rows rs e \<and> (BadRow \<in> set rs \<or> e \<or> rs = []))"
  shows "CheckDestinationSchedule q i lp d \<noteq> Inr True"
proof (cases "q = QueryFails")
  case True
  then show ?thesis by (simp add: CheckDestinationSchedule_unavailable(1))
next
  case False
  then have q: "q = Rows rs e" and c: "BadRow \<in> set rs \<or> e \<or> rs = []" using assms by simp_all
  show ?thesis
  proof (cases "BadRow \<in> set rs")
    case True
    then show ?thesis by (simp add: q CheckDestinationSchedule_unavailable(2))
  next
    case False
    show ?thesis
    proof (cases e)
      case True
      then show ?thesis using False by (simp add: q CheckDestinationSchedule_unavailable(3))
    next
      case False
      then have "rs = []" using c \<open>BadRow \<notin> set rs\<close> by simp
      then show ?thesis using False by (simp add: q CheckDestinationSchedule_unavailable(4))
    qed
  qed
qed

text \<open>
  Claim C3, as amended. When the feed holds a record that parses, names the requested
  site and falls on the day of the requested launch date, \<open>validateBooking\<close> rejects
  every request whose launch date and birth date are both present: it answers false with
  no error after the one call of \<open>CheckLaunchpadAvailability\<close>, whatever the remaining
  fields and the destinations are, and the handler answers 400 with the message of a
  scheduling conflict.
\<close>

theorem launch_site_conflict:
  assumes "\<not> IsZero (LaunchDate b)" and "\<not> IsZero (Birthday b)"
    and "feed w = Launches launches" and "l \<in> set launches"
    and "Parse_RFC3339 (DateLocal l) = Some dateLocal"
    and "Launchpad l = LaunchpadID b"
    and "Format_date dateLocal = Format_date (LaunchDate b)"
  shows "validateBooking w b = ([CallCheckLaunchpadAvailability], Inr False)
       \<and> CreateBookingHandler w (Some b)
           = ([CallCheckLaunchpadAvailability],
              HttpError ''Flight is cancelled due to scheduling conflicts.'' 400)"
proof -
  have "scan_launches launches (LaunchpadID b) (LaunchDate b) = False"
    using assms(4-7) by (auto simp: scan_launches_iff)
  then have "CheckLaunchpadAvailability (feed w) (LaunchpadID b) (LaunchDate b) = Inr False"
    using assms(3) by (simp add: CheckLaunchpadAvailability_def)
  then have v: "validateBooking w b = ([CallCheckLaunchpadAvailability], Inr False)"
    using assms(1,2) by (simp add: validateBooking_present)
  then show ?thesis by (simp add: CreateBookingHandler_def)
qed

theorem launch_site_conflict_witness:
  "\<not> IsZero (LaunchDate bookingData) \<and> \<not> IsZero (Birthday bookingData)
   \<and> feed (testWorld [launch_1]) = Launches [launch_1] \<and> launch_1 \<in> set [launch_1]
   \<and> Parse_RFC3339 (DateLocal launch_1) = Some (Date 2049 12 25 0 0 0 0 0)
   \<and> Launchpad launch_1 = LaunchpadID bookingData
   \<and> Format_date (Date 2049 12 25 0 0 0 0 0) = Format_date (LaunchDate bookingData)
   \<and> validateBooking (testWorld [launch_1]) bookingData
        = ([CallCheckLaunchpadAvailability], Inr False)
   \<and> CreateBookingHandler (testWorld [launch_1]) (Some bookingData)
        = ([CallCheckLaunchpadAvailability],
           HttpError ''Flight is cancelled due to scheduling conflicts.'' 400)
   \<and> Parse_RFC3339 (DateLocal launch_short_hour) = Some (Date 2049 12 25 1 0 0 0 0)
   \<and> Format_date (Date 2049 12 25 1 0 0 0 0) = Format_date (LaunchDate bookingData)
   \<and> validateBooking (testWorld [launch_2, launch_short_hour]) bookingData
        = ([CallCheckLaunchpadAvailability], Inr False)"
proof -
  have 1: "\<not> IsZero (LaunchDate bookingData)" and 2: "\<not> IsZero (Birthday bookingData)"
    using bookingData_present by simp_all
  have 3: "feed (testWorld [launch_1]) = Launches [launch_1]" by (simp add: testWorld_def)
  have 4: "launch_1 \<in> set [launch_1]" by simp
  have 5: "Parse_RFC3339 (DateLocal launch_1) = Some (Date 2049 12 25 0 0 0 0 0)"
    by (simp add: launch_1_def Parse_2049_12_25)
  have 6: "Launchpad launch_1 = LaunchpadID bookingData"
    by (simp add: launch_1_def bookingData_def)
  have 7: "Format_date (Date 2049 12 25 0 0 0 0 0) = Format_date (LaunchDate bookingData)"
    by (simp add: bookingData_def)
  have h3: "feed (testWorld [launch_2, launch_short_hour]) = Launches [launch_2, launch_short_hour]"
    by (simp add: testWorld_def)
  have h4: "launch_short_hour \<in> set [launch_2, launch_short_hour]" by simp
  have h5: "Parse_RFC3339 (DateLocal launch_short_hour) = Some (Date 2049 12 25 1 0 0 0 0)"
    by (simp add: launch_short_hour_def Parse_short_hour)
  have h6: "Launchpad launch_short_hour = LaunchpadID bookingData"
    by (simp add: launch_short_hour_def bookingData_def)
  have h7: "Format_date (Date 2049 12 25 1 0 0 0 0) = Format_date (LaunchDate bookingData)"
    by (simp add: bookingData_def Format_short_hour Format_2049_12_25)
  show ?thesis
    using 1 2 3 4 5 6 7 h5 h7 launch_site_conflict [OF 1 2 3 4 5 6 7]
      launch_site_conflict [OF 1 2 h3 h4 h5 h6 h7]
    by blast
qed

text \<open>
  The claim as stated, for every request, fails: a request for the occupied site and day
  that lacks its birth date is turned away by the check of the dates, with the error of
  the missing dates and before any call, not as a conflict.
\<close>

theorem launch_site_conflict_counterexample:
  "Parse_RFC3339 (DateLocal launch_1) = Some (Date 2049 12 25 0 0 0 0 0)
   \<and> Launchpad launch_1 = LaunchpadID (bookingData\<lparr>Birthday := zeroTime\<rparr>)
   \<and> Format_date (Date 2049 12 25 0 0 0 0 0)
        = Format_date (LaunchDate (bookingData\<lparr>Birthday := zeroTime\<rparr>))
   \<and> validateBooking (testWorld [launch_1]) (bookingData\<lparr>Birthday := zeroTime\<rparr>)
        = ([], Inl ErrMissingDates)
   \<and> validateBooking (testWorld [launch_1]) (bookingData\<lparr>Birthday := zeroTime\<rparr>)
        \<noteq> ([CallCheckLaunchpadAvailability], Inr False)"
  using IsZero_test_dates by (simp add: validateBooking_missing launch_1_def Parse_2049_12_25 bookingData_def)

text \<open>
  Claim C4, as amended. \<open>CheckLaunchpadAvailability\<close> answers false exactly when some
  record of the feed is parsed by \<open>time.Parse\<close>, names the requested site, and has the same
  date in the layout \<open>2006-01-02\<close> as the requested launch date, each of the two times
  formatted in its own UTC offset; nothing converts them to a common time zone. Only the
  day counts: a record of the site on the same local day number is a conflict at any
  time of day.
\<close>

theorem launch_site_availability:
  "CheckLaunchpadAvailability (Launches launches) launchpadID launchDate =
     Inr (\<not> (\<exists>l \<in> set launches. \<exists>dateLocal.
              Parse_RFC3339 (DateLocal l) = Some dateLocal \<and> Launchpad l = launchpadID
              \<and> Format_date dateLocal = Format_date launchDate))
   \<and> ((\<exists>l \<in> set launches. \<exists>dateLocal.
              Parse_RFC3339 (DateLocal l) = Some dateLocal \<and> Launchpad l = launchpadID
              \<and> local_day dateLocal = local_day launchDate)
        \<longrightarrow> CheckLaunchpadAvailability (Launches launches) launchpadID launchDate = Inr False)"
proof -
  have f: "Format_date t = Format_date t'" if "local_day t = local_day t'" for t t'
    using that by (simp add: Format_date_def)
  have a: "CheckLaunchpadAvailability (Launches launches) launchpadID launchDate =
     Inr (\<not> (\<exists>l \<in> set launches. \<exists>dateLocal.
              Parse_RFC3339 (DateLocal l) = Some dateLocal \<and> Launchpad l = launchpadID
              \<and> Format_date dateLocal = Format_date launchDate))"
    by (simp add: CheckLaunchpadAvailability_def scan_launches_iff)
  have b: "CheckLaunchpadAvailability (Launches launches) launchpadID launchDate = Inr False"
    if "\<exists>l \<in> set launches. \<exists>dateLocal.
              Parse_RFC3339 (DateLocal l) = Some dateLocal \<and> Launchpad l = launchpadID
              \<and> local_day dateLocal = local_day launchDate"
  proof -
    have "\<exists>l \<in> set launches. \<exists>dateLocal.
              Parse_RFC3339 (DateLocal l) = Some dateLocal \<and> Launchpad l = launchpadID
              \<and> Format_date dateLocal = Format_date launchDate"
      using that f by blast
    then show ?thesis by (simp add: a)
  qed
  show ?thesis using a b by blast
qed

theorem launch_site_availability_witness:
  "CheckLaunchpadAvailability (Launches [launch_1]) ''test_launchpad'' (Date 2049 12 25 0 0 0 0 0)
     = Inr False
   \<and> CheckLaunchpadAvailability (Launches [launch_2]) ''test_launchpad''
       (Date 2049 12 25 0 0 0 0 0) = Inr True
   \<and> local_day (Date 2049 12 25 23 30 0 0 (- 18000)) = local_day (Date 2049 12 25 0 0 0 0 0)
   \<and> CheckLaunchpadAvailability (Launches [launch_west]) ''test_launchpad''
       (Date 2049 12 25 0 0 0 0 0) = Inr False
   \<and> CheckLaunchpadAvailability (Launches [launch_short_hour]) ''test_launchpad''
       (Date 2049 12 25 0 0 0 0 0) = Inr False
   \<and> CheckLaunchpadAvailability (Launches [launch_day_offset]) ''test_launchpad''
       (Date 2049 12 25 0 0 0 0 0) = Inr False"
proof -
  have sh: "\<exists>l \<in> set [launch_short_hour]. \<exists>dateLocal.
              Parse_RFC3339 (DateLocal l) = Some dateLocal \<and> Launchpad l = ''test_launchpad''
              \<and> Format_date dateLocal = Format_date (Date 2049 12 25 0 0 0 0 0)"
    by (simp add: launch_short_hour_def Parse_short_hour Format_short_hour Format_2049_12_25)
  have l3: "CheckLaunchpadAvailability (Launches [launch_short_hour]) ''test_launchpad''
       (Date 2049 12 25 0 0 0 0 0) = Inr False"
    using sh launch_site_availability [of "[launch_short_hour]" "''test_launchpad''"
        "Date 2049 12 25 0 0 0 0 0"]
    by simp
  have dy: "\<exists>l \<in> set [launch_day_offset]. \<exists>dateLocal.
              Parse_RFC3339 (DateLocal l) = Some dateLocal \<and> Launchpad l = ''test_launchpad''
              \<and> Format_date dateLocal = Format_date (Date 2049 12 25 0 0 0 0 0)"
    by (simp add: launch_day_offset_def Parse_day_offset Format_day_offset Format_2049_12_25)
  have l4: "CheckLaunchpadAvailability (Launches [launch_day_offset]) ''test_launchpad''
       (Date 2049 12 25 0 0 0 0 0) = Inr False"
    using dy launch_site_availability [of "[launch_day_offset]" "''test_launchpad''"
        "Date 2049 12 25 0 0 0 0 0"]
    by simp
  have d: "local_day (Date 2049 12 25 23 30 0 0 (- 18000)) = local_day (Date 2049 12 25 0 0 0 0 0)"
    by (simp add: local_day_def Date_def days_from_civil_def)
  have c: "\<exists>l \<in> set [launch_west]. \<exists>dateLocal.
              Parse_RFC3339 (DateLocal l) = Some dateLocal \<and> Launchpad l = ''test_launchpad''
              \<and> local_day dateLocal = local_day (Date 2049 12 25 0 0 0 0 0)"
    using d by (simp add: launch_west_def Parse_launch_west)
  have w: "CheckLaunchpadAvailability (Launches [launch_west]) ''test_launchpad''
       (Date 2049 12 25 0 0 0 0 0) = Inr False"
    using c launch_site_availability [of "[launch_west]" "''test_launchpad''"
        "Date 2049 12 25 0 0 0 0 0"]
    by blast
  have a: "\<exists>l \<in> set [launch_1]. \<exists>dateLocal.
              Parse_RFC3339 (DateLocal l) = Some dateLocal \<and> Launchpad l = ''test_launchpad''
              \<and> Format_date dateLocal = Format_date (Date 2049 12 25 0 0 0 0 0)"
    by (simp add: launch_1_def Parse_2049_12_25)
  have b: "\<not> (\<exists>l \<in> set [launch_2]. \<exists>dateLocal.
              Parse_RFC3339 (DateLocal l) = Some dateLocal \<and> Launchpad l = ''test_launchpad''
              \<and> Format_date dateLocal = Format_date (Date 2049 12 25 0 0 0 0 0))"
    by (simp add: launch_2_def Parse_2049_12_26 Format_2049_12_25 Format_2049_12_26)
  have l1: "CheckLaunchpadAvailability (Launches [launch_1]) ''test_launchpad''
       (Date 2049 12 25 0 0 0 0 0) = Inr False"
    using a launch_site_availability [of "[launch_1]" "''test_launchpad''"
        "Date 2049 12 25 0 0 0 0 0"]
    by simp
  have l2: "CheckLaunchpadAvailability (Launches [launch_2]) ''test_launchpad''
       (Date 2049 12 25 0 0 0 0 0) = Inr True"
    using b launch_site_availability [of "[launch_2]" "''test_launchpad''"
        "Date 2049 12 25 0 0 0 0 0"]
    by simp
  show ?thesis using l1 l2 d w l3 l4 by blast
qed

text \<open>
  With both times brought to UTC the claim fails in both directions. A launch at 23:30
  on 2049-12-25 at five hours west of Greenwich is on 2049-12-26 in UTC, more than a day
  after midnight UTC of 2049-12-25, and yet blocks the request for that day. A launch at
  01:00 on 2049-12-26 at three hours east of Greenwich is the very instant 22:00 UTC of
  2049-12-25, and yet does not block a request for that instant.
\<close>

theorem launch_site_availability_counterexample:
  "Parse_RFC3339 (DateLocal launch_west) = Some (Date 2049 12 25 23 30 0 0 (- 18000))
   \<and> Launchpad launch_west = ''test_launchpad''
   \<and> Format_date (UTC (Date 2049 12 25 23 30 0 0 (- 18000))) = ''2049-12-26''
   \<and> Format_date (UTC (Date 2049 12 25 0 0 0 0 0)) = ''2049-12-25''
   \<and> unixSec (Date 2049 12 25 23 30 0 0 (- 18000)) - unixSec (Date 2049 12 25 0 0 0 0 0) = 102600
   \<and> CheckLaunchpadAvailability (Launches [launch_west]) ''test_launchpad''
        (Date 2049 12 25 0 0 0 0 0) = Inr False
   \<and> Parse_RFC3339 (DateLocal launch_east) = Some (Date 2049 12 26 1 0 0 0 10800)
   \<and> Launchpad launch_east = ''test_launchpad''
   \<and> unixSec (Date 2049 12 26 1 0 0 0 10800) = unixSec (Date 2049 12 25 22 0 0 0 0)
   \<and> Format_date (UTC (Date 2049 12 26 1 0 0 0 10800)) = ''2049-12-25''
   \<and> Format_date (UTC (Date 2049 12 25 22 0 0 0 0)) = ''2049-12-25''
   \<and> CheckLaunchpadAvailability (Launches [launch_east]) ''test_launchpad''
        (Date 2049 12 25 22 0 0 0 0) = Inr True"
proof -
  have u: "UTC (Date y m d hh mm ss ns 0) = Date y m d hh mm ss ns 0" for y m d hh mm ss ns
    by (simp add: UTC_def Date_def)
  have w: "CheckLaunchpadAvailability (Launches [launch_west]) ''test_launchpad''
        (Date 2049 12 25 0 0 0 0 0) = Inr False"
    by (simp add: CheckLaunchpadAvailability_def launch_west_def Parse_launch_west Format_2049_12_25 Format_west_local)
  have e: "CheckLaunchpadAvailability (Launches [launch_east]) ''test_launchpad''
        (Date 2049 12 25 22 0 0 0 0) = Inr True"
    by (simp add: CheckLaunchpadAvailability_def launch_east_def Parse_launch_east Format_east_local Format_2049_12_25_evening)
  show ?thesis
    using w e east_same_instant west_a_day_later by (simp add: u launch_west_def launch_east_def Parse_launch_west Parse_launch_east Format_2049_12_25 Format_west_UTC Format_2049_12_25_evening Format_east_UTC)
qed

text \<open>
  Claim C5, as amended. \<open>validateBooking\<close> never answers true when the feed cannot be
  fetched, read or decoded, when the query of the destinations, the scan of a row or the
  iteration over the rows fails, or when the list of destinations is empty. A request
  with a missing date is rejected with the error of the missing dates before any call.
  For a request with both dates present: a failure of the feed is returned as the error
  of the failing step after the one call; a conflict on the site is answered with false
  after the one call, the destinations not being read; and when the feed shows the site
  free, a failing query, scan or iteration and an empty list of destinations are each
  returned as their error after the second call.
\<close>

theorem upstream_fail_closed:
  "((feed w = GetFails \<or> feed w = ReadFails \<or> feed w = UnmarshalFails
       \<or> destinations w = QueryFails
       \<or> (destinations w = Rows rs rowsErr \<and> (BadRow \<in> set rs \<or> rowsErr \<or> rs = [])))
      \<longrightarrow> snd (validateBooking w b) \<noteq> Inr True)
   \<and> (IsZero (LaunchDate b) \<or> IsZero (Birthday b)
        \<longrightarrow> validateBooking w b = ([], Inl ErrMissingDates))
   \<and> (\<not> IsZero (LaunchDate b) \<and> \<not> IsZero (Birthday b) \<longrightarrow>
        (feed w = GetFails
           \<longrightarrow> validateBooking w b = ([CallCheckLaunchpadAvailability], Inl ErrHttpGet))
      \<and> (feed w = ReadFails
           \<longrightarrow> validateBooking w b = ([CallCheckLaunchpadAvailability], Inl ErrReadBody))
      \<and> (feed w = UnmarshalFails
           \<longrightarrow> validateBooking w b = ([CallCheckLaunchpadAvailability], Inl ErrUnmarshal))
      \<and> (CheckLaunchpadAvailability (feed w) (LaunchpadID b) (LaunchDate b) = Inr False
           \<longrightarrow> validateBooking w b = ([CallCheckLaunchpadAvailability], Inr False))
      \<and> (CheckLaunchpadAvailability (feed w) (LaunchpadID b) (LaunchDate b) = Inr True \<longrightarrow>
           (destinations w = QueryFails
              \<longrightarrow> validateBooking w b
                   = ([CallCheckLaunchpadAvailability, CallCheckDestinationSchedule],
                      Inl ErrQuery))
         \<and> (destinations w = Rows rs rowsErr \<and> BadRow \<in> set rs
              \<longrightarrow> validateBooking w b
                   = ([CallCheckLaunchpadAvailability, CallCheckDestinationSchedule],
                      Inl ErrScan))
         \<and> (destinations w = Rows rs True \<and> BadRow \<notin> set rs
              \<longrightarrow> validateBooking w b
                   = ([CallCheckLaunchpadAvailability, CallCheckDestinationSchedule],
                      Inl ErrRows))
         \<and> (destinations w = Rows [] False
              \<longrightarrow> validateBooking w b
                   = ([CallCheckLaunchpadAvailability, CallCheckDestinationSchedule],
                      Inl ErrNoDestinations))))"
proof -
  let ?site = "CheckLaunchpadAvailability (feed w) (LaunchpadID b) (LaunchDate b)"
  let ?rot = "CheckDestinationSchedule (destinations w) (DestinationID b) (LaunchpadID b)
       (LaunchDate b)"
  have missing: "validateBooking w b = ([], Inl ErrMissingDates)"
    if "IsZero (LaunchDate b) \<or> IsZero (Birthday b)"
    using that by (rule validateBooking_missing)
  have never: "snd (validateBooking w b) \<noteq> Inr True"
    if h: "feed w = GetFails \<or> feed w = ReadFails \<or> feed w = UnmarshalFails
       \<or> destinations w = QueryFails
       \<or> (destinations w = Rows rs rowsErr \<and> (BadRow \<in> set rs \<or> rowsErr \<or> rs = []))"
  proof (cases "IsZero (LaunchDate b) \<or> IsZero (Birthday b)")
    case True
    then show ?thesis by (simp add: validateBooking_missing)
  next
    case False
    then have p: "\<not> IsZero (LaunchDate b)" "\<not> IsZero (Birthday b)" by simp_all
    show ?thesis
    proof (cases "feed w = GetFails \<or> feed w = ReadFails \<or> feed w = UnmarshalFails")
      case True
      then show ?thesis
        by (auto simp: validateBooking_present [OF p] CheckLaunchpadAvailability_def)
    next
      case False
      then have "destinations w = QueryFails
          \<or> (destinations w = Rows rs rowsErr \<and> (BadRow \<in> set rs \<or> rowsErr \<or> rs = []))"
        using h by blast
      then have "?rot \<noteq> Inr True" by (rule CheckDestinationSchedule_not_true)
      then show ?thesis
        by (auto simp: validateBooking_present [OF p] split: sum.splits)
    qed
  qed
  have present: "(feed w = GetFails
           \<longrightarrow> validateBooking w b = ([CallCheckLaunchpadAvailability], Inl ErrHttpGet))
      \<and> (feed w = ReadFails
           \<longrightarrow> validateBooking w b = ([CallCheckLaunchpadAvailability], Inl ErrReadBody))
      \<and> (feed w = UnmarshalFails
           \<longrightarrow> validateBooking w b = ([CallCheckLaunchpadAvailability], Inl ErrUnmarshal))
      \<and> (?site = Inr False
           \<longrightarrow> validateBooking w b = ([CallCheckLaunchpadAvailability], Inr False))
      \<and> (?site = Inr True \<longrightarrow>
           (destinations w = QueryFails
              \<longrightarrow> validateBooking w b
                   = ([CallCheckLaunchpadAvailability, CallCheckDestinationSchedule],
                      Inl ErrQuery))
         \<and> (destinations w = Rows rs rowsErr \<and> BadRow \<in> set rs
              \<longrightarrow> validateBooking w b
                   = ([CallCheckLaunchpadAvailability, CallCheckDestinationSchedule],
                      Inl ErrScan))
         \<and> (destinations w = Rows rs True \<and> BadRow \<notin> set rs
              \<longrightarrow> validateBooking w b
                   = ([CallCheckLaunchpadAvailability, CallCheckDestinationSchedule],
                      Inl ErrRows))
         \<and> (destinations w = Rows [] False
              \<longrightarrow> validateBooking w b
                   = ([CallCheckLaunchpadAvailability, CallCheckDestinationSchedule],
                      Inl ErrNoDestinations)))"
    if p: "\<not> IsZero (LaunchDate b)" "\<not> IsZero (Birthday b)"
    by (auto simp: validateBooking_present [OF p] CheckLaunchpadAvailability_def
          CheckDestinationSchedule_unavailable)
  show ?thesis using never missing present by blast
qed


theorem upstream_fail_closed_witness:
  "feed downWorld = GetFails
   \<and> \<not> IsZero (LaunchDate bookingData) \<and> \<not> IsZero (Birthday bookingData)
   \<and> snd (validateBooking downWorld bookingData) \<noteq> Inr True
   \<and> validateBooking downWorld bookingData = ([CallCheckLaunchpadAvailability], Inl ErrHttpGet)
   \<and> validateBooking (downWorld\<lparr>feed := ReadFails\<rparr>) bookingData
        = ([CallCheckLaunchpadAvailability], Inl ErrReadBody)
   \<and> validateBooking (downWorld\<lparr>feed := UnmarshalFails\<rparr>) bookingData
        = ([CallCheckLaunchpadAvailability], Inl ErrUnmarshal)
   \<and> IsZero (Birthday (bookingData\<lparr>Birthday := zeroTime\<rparr>))
   \<and> validateBooking downWorld (bookingData\<lparr>Birthday := zeroTime\<rparr>) = ([], Inl ErrMissingDates)
   \<and> CheckLaunchpadAvailability (feed (emptyWorld [launch_1])) (LaunchpadID bookingData)
        (LaunchDate bookingData) = Inr False
   \<and> validateBooking (emptyWorld [launch_1]) bookingData
        = ([CallCheckLaunchpadAvailability], Inr False)
   \<and> CheckLaunchpadAvailability (feed (queryWorld QueryFails)) (LaunchpadID bookingData)
        (LaunchDate bookingData) = Inr True
   \<and> validateBooking (queryWorld QueryFails) bookingData
        = ([CallCheckLaunchpadAvailability, CallCheckDestinationSchedule], Inl ErrQuery)
   \<and> BadRow \<in> set [Row 1, BadRow]
   \<and> validateBooking (queryWorld (Rows [Row 1, BadRow] False)) bookingData
        = ([CallCheckLaunchpadAvailability, CallCheckDestinationSchedule], Inl ErrScan)
   \<and> BadRow \<notin> set [Row 1]
   \<and> validateBooking (queryWorld (Rows [Row 1] True)) bookingData
        = ([CallCheckLaunchpadAvailability, CallCheckDestinationSchedule], Inl ErrRows)
   \<and> snd (validateBooking (queryWorld (Rows [Row 1] True)) bookingData) \<noteq> Inr True
   \<and> validateBooking (queryWorld (Rows [] False)) bookingData
        = ([CallCheckLaunchpadAvailability, CallCheckDestinationSchedule], Inl ErrNoDestinations)"
proof -
  let ?B = bookingData
  let ?M = "bookingData\<lparr>Birthday := zeroTime\<rparr>"
  have z: "\<not> IsZero (LaunchDate ?B) \<and> \<not> IsZero (Birthday ?B)" by (rule bookingData_present)
  have m: "IsZero (Birthday ?M)" using IsZero_test_dates by simp
  have f: "feed downWorld = GetFails" by (simp add: downWorld_def)
  have k: "CheckLaunchpadAvailability (feed (emptyWorld [launch_1])) (LaunchpadID ?B)
        (LaunchDate ?B) = Inr False"
    using scan_launch_1 by (simp add: emptyWorld_def bookingData_def CheckLaunchpadAvailability_def)
  have a: "CheckLaunchpadAvailability (feed (queryWorld q)) (LaunchpadID ?B) (LaunchDate ?B)
      = Inr True" for q
    using scan_launch_2 by (simp add: queryWorld_def bookingData_def CheckLaunchpadAvailability_def)
  have d: "destinations (queryWorld q) = q" for q by (simp add: queryWorld_def)
  have b1: "BadRow \<in> set [Row 1, BadRow]" and b2: "BadRow \<notin> set [Row 1]" by simp_all
  have 1: "snd (validateBooking downWorld ?B) \<noteq> Inr True
      \<and> validateBooking downWorld ?B = ([CallCheckLaunchpadAvailability], Inl ErrHttpGet)"
    using upstream_fail_closed [where w = downWorld and b = ?B and rs = "[]" and rowsErr = False]
      f z by blast
  have 2: "validateBooking (downWorld\<lparr>feed := ReadFails\<rparr>) ?B
      = ([CallCheckLaunchpadAvailability], Inl ErrReadBody)"
    using upstream_fail_closed [where w = "downWorld\<lparr>feed := ReadFails\<rparr>" and b = ?B
        and rs = "[]" and rowsErr = False] z
    by simp
  have 3: "validateBooking (downWorld\<lparr>feed := UnmarshalFails\<rparr>) ?B
      = ([CallCheckLaunchpadAvailability], Inl ErrUnmarshal)"
    using upstream_fail_closed [where w = "downWorld\<lparr>feed := UnmarshalFails\<rparr>" and b = ?B
        and rs = "[]" and rowsErr = False] z
    by simp
  have 4: "validateBooking downWorld ?M = ([], Inl ErrMissingDates)"
    using upstream_fail_closed [where w = downWorld and b = ?M and rs = "[]" and rowsErr = False]
      m by blast
  have 5: "validateBooking (emptyWorld [launch_1]) ?B = ([CallCheckLaunchpadAvailability], Inr False)"
    using upstream_fail_closed [where w = "emptyWorld [launch_1]" and b = ?B and rs = "[]"
        and rowsErr = False] z k
    by blast
  have 6: "validateBooking (queryWorld QueryFails) ?B
      = ([CallCheckLaunchpadAvailability, CallCheckDestinationSchedule], Inl ErrQuery)"
    using upstream_fail_closed [where w = "queryWorld QueryFails" and b = ?B and rs = "[]"
        and rowsErr = False] z a [of QueryFails] d [of QueryFails]
    by blast
  have 7: "validateBooking (queryWorld (Rows [Row 1, BadRow] False)) ?B
      = ([CallCheckLaunchpadAvailability, CallCheckDestinationSchedule], Inl ErrScan)"
    using upstream_fail_closed [where w = "queryWorld (Rows [Row 1, BadRow] False)" and b = ?B
        and rs = "[Row 1, BadRow]" and rowsErr = False]
      z a [of "Rows [Row 1, BadRow] False"] d [of "Rows [Row 1, BadRow] False"] b1
    by blast
  have 8: "validateBooking (queryWorld (Rows [Row 1] True)) ?B
      = ([CallCheckLaunchpadAvailability, CallCheckDestinationSchedule], Inl ErrRows)
      \<and> snd (validateBooking (queryWorld (Rows [Row 1] True)) ?B) \<noteq> Inr True"
    using upstream_fail_closed [where w = "queryWorld (Rows [Row 1] True)" and b = ?B
        and rs = "[Row 1]" and rowsErr = True]
      z a [of "Rows [Row 1] True"] d [of "Rows [Row 1] True"] b2
    by blast
  have 9: "validateBooking (queryWorld (Rows [] False)) ?B
      = ([CallCheckLaunchpadAvailability, CallCheckDestinationSchedule], Inl ErrNoDestinations)"
    using upstream_fail_closed [where w = "queryWorld (Rows [] False)" and b = ?B
        and rs = "[]" and rowsErr = False]
      z a [of "Rows [] False"] d [of "Rows [] False"]
    by blast
  show ?thesis
    using f z 1 2 3 m 4 k 5 a [of QueryFails] 6 b1 7 b2 8 9 by blast
qed

text \<open>
  The claim as stated, that the outcome is the upstream error for every request, fails:
  with an empty list of destinations, a request for an occupied site and day is rejected
  as a conflict (false, no error, answered with 400) without the destinations being
  read; and with the feed down, a request without its birth date gets the error of the
  missing dates.
\<close>

theorem upstream_fail_closed_counterexample:
  "destinations (emptyWorld [launch_1]) = Rows [] False
   \<and> validateBooking (emptyWorld [launch_1]) bookingData
        = ([CallCheckLaunchpadAvailability], Inr False)
   \<and> CreateBookingHandler (emptyWorld [launch_1]) (Some bookingData)
        = ([CallCheckLaunchpadAvailability],
           HttpError ''Flight is cancelled due to scheduling conflicts.'' 400)
   \<and> feed downWorld = GetFails
   \<and> validateBooking downWorld (bookingData\<lparr>Birthday := zeroTime\<rparr>) = ([], Inl ErrMissingDates)"
proof -
  have c: "CheckLaunchpadAvailability (feed (emptyWorld [launch_1])) (LaunchpadID bookingData)
        (LaunchDate bookingData) = Inr False"
    using scan_launch_1 by (simp add: emptyWorld_def bookingData_def CheckLaunchpadAvailability_def)
  have v: "validateBooking (emptyWorld [launch_1]) bookingData
        = ([CallCheckLaunchpadAvailability], Inr False)"
    using bookingData_present c by (simp add: validateBooking_present)
  have m: "validateBooking downWorld (bookingData\<lparr>Birthday := zeroTime\<rparr>) = ([], Inl ErrMissingDates)"
    using IsZero_test_dates by (simp add: validateBooking_missing)
  show ?thesis
    using v m by (simp add: CreateBookingHandler_def emptyWorld_def downWorld_def)
qed

text \<open>
  Claim C6. A record whose timestamp \<open>time.Parse\<close> refuses in the layout
  \<open>time.RFC3339\<close> is skipped: alone it is no conflict even on the requested site, its
  presence anywhere in the feed changes neither the answer of
  \<open>CheckLaunchpadAvailability\<close> nor that of \<open>validateBooking\<close>, and a request that matches
  no parsed record and passes the other checks is accepted.
\<close>

theorem unparseable_record_skipped:
  assumes "Parse_RFC3339 (DateLocal l) = None"
  shows "CheckLaunchpadAvailability (Launches [l]) launchpadID launchDate = Inr True
       \<and> CheckLaunchpadAvailability (Launches (xs @ l # ys)) launchpadID launchDate
           = CheckLaunchpadAvailability (Launches (xs @ ys)) launchpadID launchDate
       \<and> validateBooking (w\<lparr>feed := Launches (xs @ l # ys)\<rparr>) b
           = validateBooking (w\<lparr>feed := Launches (xs @ ys)\<rparr>) b
       \<and> (\<not> IsZero (LaunchDate b) \<and> \<not> IsZero (Birthday b)
            \<and> \<not> (\<exists>r \<in> set (xs @ ys). \<exists>dateLocal.
                    Parse_RFC3339 (DateLocal r) = Some dateLocal \<and> Launchpad r = LaunchpadID b
                    \<and> Format_date dateLocal = Format_date (LaunchDate b))
            \<and> CheckDestinationSchedule (destinations w) (DestinationID b) (LaunchpadID b)
                 (LaunchDate b) = Inr True
          \<longrightarrow> validateBooking (w\<lparr>feed := Launches (xs @ l # ys)\<rparr>) b
               = ([CallCheckLaunchpadAvailability, CallCheckDestinationSchedule], Inr True))"
proof -
  have one: "CheckLaunchpadAvailability (Launches [l]) launchpadID launchDate = Inr True"
    using assms by (simp add: CheckLaunchpadAvailability_def)
  have skip: "CheckLaunchpadAvailability (Launches (xs @ l # ys)) lp d
           = CheckLaunchpadAvailability (Launches (xs @ ys)) lp d" for lp d
    using assms by (simp add: CheckLaunchpadAvailability_def scan_launches_skip)
  have same: "validateBooking (w\<lparr>feed := Launches (xs @ l # ys)\<rparr>) b
           = validateBooking (w\<lparr>feed := Launches (xs @ ys)\<rparr>) b"
    by (simp add: validateBooking_def Let_def skip split: sum.splits)
  have acc: "validateBooking (w\<lparr>feed := Launches (xs @ l # ys)\<rparr>) b
               = ([CallCheckLaunchpadAvailability, CallCheckDestinationSchedule], Inr True)"
    if p: "\<not> IsZero (LaunchDate b)" "\<not> IsZero (Birthday b)"
      and n: "\<not> (\<exists>r \<in> set (xs @ ys). \<exists>dateLocal.
                    Parse_RFC3339 (DateLocal r) = Some dateLocal \<and> Launchpad r = LaunchpadID b
                    \<and> Format_date dateLocal = Format_date (LaunchDate b))"
      and d: "CheckDestinationSchedule (destinations w) (DestinationID b) (LaunchpadID b)
                 (LaunchDate b) = Inr True"
  proof -
    have "CheckLaunchpadAvailability (Launches (xs @ ys)) (LaunchpadID b) (LaunchDate b) = Inr True"
      using n by (simp add: scan_launches_answer)
    then show ?thesis
      using p d by (simp add: same validateBooking_present)
  qed
  show ?thesis using one skip same acc by blast
qed

theorem unparseable_record_skipped_witness:
  "Parse_RFC3339 (DateLocal launch_3) = None
   \<and> Launchpad launch_3 = LaunchpadID bookingData
   \<and> CheckLaunchpadAvailability (Launches [launch_3]) ''test_launchpad''
        (Date 2049 12 25 0 0 0 0 0) = Inr True
   \<and> CheckLaunchpadAvailability (Launches ([launch_2] @ launch_3 # [launch_1])) ''test_launchpad''
        (Date 2049 12 25 0 0 0 0 0) = Inr False
   \<and> \<not> IsZero (LaunchDate (bookingData\<lparr>DestinationID := 6\<rparr>))
   \<and> \<not> IsZero (Birthday (bookingData\<lparr>DestinationID := 6\<rparr>))
   \<and> validateBooking (testWorld ([launch_2] @ launch_3 # [])) (bookingData\<lparr>DestinationID := 6\<rparr>)
        = ([CallCheckLaunchpadAvailability, CallCheckDestinationSchedule], Inr True)"
proof -
  let ?D = "Date 2049 12 25 0 0 0 0 0"
  let ?B = "bookingData\<lparr>DestinationID := 6\<rparr>"
  let ?W = "testWorld ([launch_2] @ launch_3 # [])"
  have n: "Parse_RFC3339 (DateLocal launch_3) = None" by (simp add: launch_3_def Parse_invalid)
  have s: "Launchpad launch_3 = LaunchpadID bookingData"
    by (simp add: launch_3_def bookingData_def)
  have c: "CheckLaunchpadAvailability (Launches ([launch_2] @ [launch_1])) ''test_launchpad'' ?D
      = Inr False"
    using scan_launch_1 by (simp add: CheckLaunchpadAvailability_def launch_2_def Parse_2049_12_26 Format_2049_12_25 Format_2049_12_26)
  have f: "\<not> (\<exists>r \<in> set ([launch_2] @ []). \<exists>dateLocal.
                    Parse_RFC3339 (DateLocal r) = Some dateLocal \<and> Launchpad r = LaunchpadID ?B
                    \<and> Format_date dateLocal = Format_date (LaunchDate ?B))"
    by (simp add: launch_2_def bookingData_def Parse_2049_12_26 Format_2049_12_25 Format_2049_12_26)
  have d: "CheckDestinationSchedule (destinations ?W) (DestinationID ?B) (LaunchpadID ?B)
             (LaunchDate ?B) = Inr True"
    by (simp add: testWorld_def bookingData_def seven_6)
  have w: "?W\<lparr>feed := Launches ([launch_2] @ launch_3 # [])\<rparr> = ?W"
    by (simp add: testWorld_def)
  have z: "\<not> IsZero (LaunchDate ?B) \<and> \<not> IsZero (Birthday ?B)"
    using bookingData_present by simp
  note T1 = unparseable_record_skipped [OF n, of "''test_launchpad''" ?D "[launch_2]"
      "[launch_1]" ?W ?B]
  note T2 = unparseable_record_skipped [OF n, of "''test_launchpad''" ?D "[launch_2]" "[]" ?W ?B]
  have a1: "CheckLaunchpadAvailability (Launches [launch_3]) ''test_launchpad'' ?D = Inr True"
    using T1 by (rule conjunct1)
  have "CheckLaunchpadAvailability (Launches ([launch_2] @ launch_3 # [launch_1]))
          ''test_launchpad'' ?D
        = CheckLaunchpadAvailability (Launches ([launch_2] @ [launch_1])) ''test_launchpad'' ?D"
    using T1 by (rule conjunct2 [THEN conjunct1])
  then have a2: "CheckLaunchpadAvailability (Launches ([launch_2] @ launch_3 # [launch_1]))
          ''test_launchpad'' ?D = Inr False"
    by (simp only: c)
  have "validateBooking (?W\<lparr>feed := Launches ([launch_2] @ launch_3 # [])\<rparr>) ?B
      = ([CallCheckLaunchpadAvailability, CallCheckDestinationSchedule], Inr True)"
    using T2 [THEN conjunct2, THEN conjunct2, THEN conjunct2] z f d by blast
  then have a3: "validateBooking ?W ?B
      = ([CallCheckLaunchpadAvailability, CallCheckDestinationSchedule], Inr True)"
    by (simp only: w)
  show ?thesis using n s a1 a2 z a3 by blast
qed

text \<open>
  Claim C7, as amended. A request whose launch date or birth date is zero is rejected by
  \<open>validateBooking\<close> with the error of the missing dates before any call of the service.
  The handler answers every error of the validation, this one and the upstream failures
  alike, with 500 Internal Server Error; only the rejections without an error, the
  conflicts, get the 400 response.
\<close>

theorem missing_dates_rejected:
  "(IsZero (LaunchDate b) \<or> IsZero (Birthday b) \<longrightarrow>
      validateBooking w b = ([], Inl ErrMissingDates)
      \<and> CreateBookingHandler w (Some b) = ([], HttpError ''Internal Server Error'' 500))
   \<and> (snd (validateBooking w b) = Inl err \<longrightarrow>
        snd (CreateBookingHandler w (Some b)) = HttpError ''Internal Server Error'' 500)
   \<and> (snd (validateBooking w b) = Inr False \<longrightarrow>
        snd (CreateBookingHandler w (Some b))
          = HttpError ''Flight is cancelled due to scheduling conflicts.'' 400)"
proof -
  have a: "validateBooking w b = ([], Inl ErrMissingDates)
      \<and> CreateBookingHandler w (Some b) = ([], HttpError ''Internal Server Error'' 500)"
    if "IsZero (LaunchDate b) \<or> IsZero (Birthday b)"
    using that by (simp add: validateBooking_missing CreateBookingHandler_def)
  have b: "snd (CreateBookingHandler w (Some b)) = HttpError ''Internal Server Error'' 500"
    if "snd (validateBooking w b) = Inl err"
    using that by (cases "validateBooking w b") (simp add: CreateBookingHandler_def)
  have c: "snd (CreateBookingHandler w (Some b))
          = HttpError ''Flight is cancelled due to scheduling conflicts.'' 400"
    if "snd (validateBooking w b) = Inr False"
    using that by (cases "validateBooking w b") (simp add: CreateBookingHandler_def)
  show ?thesis using a b c by blast
qed

theorem missing_dates_rejected_witness:
  "IsZero (Birthday (bookingData\<lparr>Birthday := zeroTime\<rparr>))
   \<and> validateBooking (testWorld []) (bookingData\<lparr>Birthday := zeroTime\<rparr>)
        = ([], Inl ErrMissingDates)
   \<and> CreateBookingHandler (testWorld []) (Some (bookingData\<lparr>Birthday := zeroTime\<rparr>))
        = ([], HttpError ''Internal Server Error'' 500)
   \<and> snd (validateBooking (testWorld [launch_1]) bookingData) = Inr False
   \<and> snd (CreateBookingHandler (testWorld [launch_1]) (Some bookingData))
        = HttpError ''Flight is cancelled due to scheduling conflicts.'' 400
   \<and> snd (validateBooking downWorld bookingData) = Inl ErrHttpGet
   \<and> snd (CreateBookingHandler downWorld (Some bookingData))
        = HttpError ''Internal Server Error'' 500"
proof -
  have e: "snd (validateBooking downWorld bookingData) = Inl ErrHttpGet"
    using bookingData_present
    by (simp add: validateBooking_present downWorld_def CheckLaunchpadAvailability_def)
  have z: "IsZero (Birthday (bookingData\<lparr>Birthday := zeroTime\<rparr>))" using IsZero_test_dates by simp
  have c: "CheckLaunchpadAvailability (feed (testWorld [launch_1])) (LaunchpadID bookingData)
        (LaunchDate bookingData) = Inr False"
    using scan_launch_1 by (simp add: testWorld_def bookingData_def CheckLaunchpadAvailability_def)
  have v: "snd (validateBooking (testWorld [launch_1]) bookingData) = Inr False"
    using bookingData_present c by (simp add: validateBooking_present)
  show ?thesis
    using z v e
      missing_dates_rejected [of "bookingData\<lparr>Birthday := zeroTime\<rparr>" "testWorld []"]
      missing_dates_rejected [of bookingData "testWorld [launch_1]"]
      missing_dates_rejected [of bookingData downWorld ErrHttpGet]
    by simp
qed

text \<open>
  The claim as stated, that the response to missing dates can be told from that to a
  system fault, fails: the response to a request without its birth date equals the
  response to a complete request made while the feed is down.
\<close>

theorem missing_dates_rejected_counterexample:
  "IsZero (Birthday (bookingData\<lparr>Birthday := zeroTime\<rparr>))
   \<and> validateBooking (testWorld []) (bookingData\<lparr>Birthday := zeroTime\<rparr>)
        = ([], Inl ErrMissingDates)
   \<and> validateBooking downWorld bookingData = ([CallCheckLaunchpadAvailability], Inl ErrHttpGet)
   \<and> snd (CreateBookingHandler (testWorld []) (Some (bookingData\<lparr>Birthday := zeroTime\<rparr>)))
        = snd (CreateBookingHandler downWorld (Some bookingData))
   \<and> snd (CreateBookingHandler downWorld (Some bookingData))
        = HttpError ''Internal Server Error'' 500"
proof -
  have z: "IsZero (Birthday (bookingData\<lparr>Birthday := zeroTime\<rparr>))" using IsZero_test_dates by simp
  have m: "validateBooking (testWorld []) (bookingData\<lparr>Birthday := zeroTime\<rparr>)
        = ([], Inl ErrMissingDates)"
    using z by (simp add: validateBooking_missing)
  have d: "validateBooking downWorld bookingData = ([CallCheckLaunchpadAvailability], Inl ErrHttpGet)"
    using bookingData_present
    by (simp add: validateBooking_present downWorld_def CheckLaunchpadAvailability_def)
  show ?thesis
    using z m d by (simp add: CreateBookingHandler_def)
qed

lemma only_logged_refl: "only_logged p p"
  by (simp add: only_logged_def)

lemma only_logged_Printf: "only_logged p p' \<Longrightarrow> only_logged p (log_Printf e p')"
  by (simp add: only_logged_def log_Printf_def)

lemma only_logged_launches: "only_logged p p' \<Longrightarrow> only_logged p (log_launches p' i ls)"
  by (induction ls arbitrary: p' i) (simp_all add: only_logged_Printf)

lemma run_scan_launches_result:
  "snd (run_scan_launches p ls lp d) = Inr (scan_launches ls lp d)"
  by (induction ls arbitrary: p) (simp_all split: option.splits)

lemma run_scan_launches_frame:
  "only_logged p p' \<Longrightarrow> only_logged p (fst (run_scan_launches p' ls lp d))"
  by (induction ls arbitrary: p') (simp_all add: only_logged_Printf split: option.splits)

lemma run_CheckLaunchpadAvailability_result:
  "snd (run_CheckLaunchpadAvailability p lp d)
     = CheckLaunchpadAvailability (http_Get p (SpaceXAPIURL p)) lp d"
  by (simp add: run_CheckLaunchpadAvailability_def CheckLaunchpadAvailability_def
        run_scan_launches_result split: feed_fetch.splits)

lemma run_CheckLaunchpadAvailability_frame:
  "only_logged p (fst (run_CheckLaunchpadAvailability p lp d))"
  by (simp add: run_CheckLaunchpadAvailability_def only_logged_refl only_logged_Printf
        only_logged_launches run_scan_launches_frame split: feed_fetch.splits)

lemma run_CheckDestinationSchedule_result:
  "snd (run_CheckDestinationSchedule p i lp d) = CheckDestinationSchedule (db_destinations p) i lp d"
  by (simp add: run_CheckDestinationSchedule_def CheckDestinationSchedule_def check_rotation_def
        split: dest_query.splits sum.splits)

lemma run_CheckDestinationSchedule_frame:
  "only_logged p p' \<Longrightarrow> only_logged p (fst (run_CheckDestinationSchedule p' i lp d))"
  by (simp add: run_CheckDestinationSchedule_def only_logged_Printf
        split: dest_query.splits sum.splits)

lemma only_logged_inputs:
  assumes "only_logged p p'"
  shows "SpaceXAPIURL p' = SpaceXAPIURL p \<and> http_Get p' = http_Get p
       \<and> db_destinations p' = db_destinations p \<and> db_insert p' = db_insert p"
proof -
  have "p = p'\<lparr>log_output := log_output p\<rparr>" using assms by (simp add: only_logged_def)
  then have "SpaceXAPIURL p = SpaceXAPIURL (p'\<lparr>log_output := log_output p\<rparr>)"
    and "http_Get p = http_Get (p'\<lparr>log_output := log_output p\<rparr>)"
    and "db_destinations p = db_destinations (p'\<lparr>log_output := log_output p\<rparr>)"
    and "db_insert p = db_insert (p'\<lparr>log_output := log_output p\<rparr>)"
    by simp_all
  then show ?thesis by simp
qed

lemma only_logged_world:
  assumes "only_logged p p'"
  shows "world_of p' = world_of p"
  using only_logged_inputs [OF assms] by (simp add: world_of_def)

lemma run_validateBooking_result:
  "snd (run_validateBooking p b) = validateBooking (world_of p) b"
proof (cases "IsZero (LaunchDate b) \<or> IsZero (Birthday b)")
  case True
  then show ?thesis by (simp add: run_validateBooking_def validateBooking_def)
next
  case False
  obtain p1 r1 where a: "run_CheckLaunchpadAvailability p (LaunchpadID b) (LaunchDate b) = (p1, r1)"
    by (cases "run_CheckLaunchpadAvailability p (LaunchpadID b) (LaunchDate b)")
  have r1: "r1 = CheckLaunchpadAvailability (http_Get p (SpaceXAPIURL p)) (LaunchpadID b) (LaunchDate b)"
    using run_CheckLaunchpadAvailability_result [of p "LaunchpadID b" "LaunchDate b"] a by simp
  have "only_logged p p1"
    using run_CheckLaunchpadAvailability_frame [of p "LaunchpadID b" "LaunchDate b"] a by simp
  then have d: "db_destinations p1 = db_destinations p" using only_logged_inputs by blast
  obtain p2 r2 where c: "run_CheckDestinationSchedule p1 (DestinationID b) (LaunchpadID b) (LaunchDate b) = (p2, r2)"
    by (cases "run_CheckDestinationSchedule p1 (DestinationID b) (LaunchpadID b) (LaunchDate b)")
  have r2: "r2 = CheckDestinationSchedule (db_destinations p) (DestinationID b) (LaunchpadID b) (LaunchDate b)"
    using run_CheckDestinationSchedule_result [of p1 "DestinationID b" "LaunchpadID b" "LaunchDate b"] c d
    by simp
  show ?thesis
    using False a c r1 [symmetric] r2 [symmetric]
    by (simp add: run_validateBooking_def validateBooking_def world_of_def Let_def
          split: sum.splits)
qed

lemma run_validateBooking_frame: "only_logged p (fst (run_validateBooking p b))"
proof (cases "IsZero (LaunchDate b) \<or> IsZero (Birthday b)")
  case True
  then show ?thesis by (simp add: run_validateBooking_def only_logged_refl)
next
  case False
  obtain p1 r1 where a: "run_CheckLaunchpadAvailability p (LaunchpadID b) (LaunchDate b) = (p1, r1)"
    by (cases "run_CheckLaunchpadAvailability p (LaunchpadID b) (LaunchDate b)")
  have l1: "only_logged p p1"
    using run_CheckLaunchpadAvailability_frame [of p "LaunchpadID b" "LaunchDate b"] a by simp
  obtain p2 r2 where c: "run_CheckDestinationSchedule p1 (DestinationID b) (LaunchpadID b) (LaunchDate b) = (p2, r2)"
    by (cases "run_CheckDestinationSchedule p1 (DestinationID b) (LaunchpadID b) (LaunchDate b)")
  have l2: "only_logged p p2"
    using run_CheckDestinationSchedule_frame [OF l1, of "DestinationID b" "LaunchpadID b" "LaunchDate b"] c
    by simp
  show ?thesis
    using False a c l1 l2
    by (simp add: run_validateBooking_def Let_def split: sum.splits)
qed

lemma validateBooking_reads:
  assumes "feed w1 = feed w2" and "destinations w1 = destinations w2"
  shows "validateBooking w1 b = validateBooking w2 b"
proof -
  have site: "CheckLaunchpadAvailability (feed w1) (LaunchpadID b) (LaunchDate b)
      = CheckLaunchpadAvailability (feed w2) (LaunchpadID b) (LaunchDate b)"
    by (simp only: assms)
  have rotation: "CheckDestinationSchedule (destinations w1) (DestinationID b) (LaunchpadID b)
        (LaunchDate b)
      = CheckDestinationSchedule (destinations w2) (DestinationID b) (LaunchpadID b)
        (LaunchDate b)"
    by (simp only: assms)
  show ?thesis
    unfolding validateBooking_def Let_def by (simp only: site rotation)
qed

text \<open>
  Claim C9. The outcome of the validation is a function of the request, the contents of
  the feed and the list of destinations. Run in two states of the process in which
  \<open>http.Get\<close> of the configured URL yields the same feed and the destinations table is
  the same, \<open>run_validateBooking\<close> makes the same calls and returns the same result for
  the same request, whatever the value of \<open>SpaceXAPIURL\<close>, the answers at other URLs,
  the log, the registry of the rate limiter and the outcome of the insert. The run
  changes nothing of the state but the log, so a second run in the state it leaves
  gives the same outcome again. This outcome is the one that \<open>validateBooking\<close> computes
  from the answers of the collaborators.
\<close>

theorem validate_deterministic:
  assumes "http_Get p1 (SpaceXAPIURL p1) = http_Get p2 (SpaceXAPIURL p2)"
    and "db_destinations p1 = db_destinations p2"
  shows "snd (run_validateBooking p1 b) = snd (run_validateBooking p2 b)
       \<and> (fst (run_validateBooking p1 b))\<lparr>log_output := log_output p1\<rparr> = p1
       \<and> snd (run_validateBooking (fst (run_validateBooking p1 b)) b)
           = snd (run_validateBooking p1 b)
       \<and> snd (run_validateBooking p1 b) = validateBooking (world_of p1) b"
proof -
  have w: "validateBooking (world_of p1) b = validateBooking (world_of p2) b"
    using assms by (intro validateBooking_reads) (simp_all add: world_of_def)
  have same: "snd (run_validateBooking p1 b) = snd (run_validateBooking p2 b)"
    by (simp only: run_validateBooking_result w)
  have frame: "only_logged p1 (fst (run_validateBooking p1 b))"
    by (rule run_validateBooking_frame)
  then have unchanged: "(fst (run_validateBooking p1 b))\<lparr>log_output := log_output p1\<rparr> = p1"
    by (simp add: only_logged_def)
  have "world_of (fst (run_validateBooking p1 b)) = world_of p1"
    using frame by (rule only_logged_world)
  then have again: "snd (run_validateBooking (fst (run_validateBooking p1 b)) b)
      = snd (run_validateBooking p1 b)"
    by (simp only: run_validateBooking_result)
  show ?thesis using same unchanged again run_validateBooking_result by blast
qed


theorem validate_deterministic_witness:
  "http_Get liveProcess (SpaceXAPIURL liveProcess) = http_Get mockProcess (SpaceXAPIURL mockProcess)
   \<and> db_destinations liveProcess = db_destinations mockProcess
   \<and> SpaceXAPIURL liveProcess \<noteq> SpaceXAPIURL mockProcess
   \<and> log_output liveProcess \<noteq> log_output mockProcess
   \<and> snd (run_validateBooking liveProcess (bookingData\<lparr>DestinationID := 6\<rparr>))
        = ([CallCheckLaunchpadAvailability, CallCheckDestinationSchedule], Inr True)
   \<and> snd (run_validateBooking mockProcess (bookingData\<lparr>DestinationID := 6\<rparr>))
        = ([CallCheckLaunchpadAvailability, CallCheckDestinationSchedule], Inr True)
   \<and> (fst (run_validateBooking liveProcess (bookingData\<lparr>DestinationID := 6\<rparr>)))
        \<lparr>log_output := log_output liveProcess\<rparr> = liveProcess
   \<and> snd (run_validateBooking
             (fst (run_validateBooking liveProcess (bookingData\<lparr>DestinationID := 6\<rparr>)))
             (bookingData\<lparr>DestinationID := 6\<rparr>))
        = ([CallCheckLaunchpadAvailability, CallCheckDestinationSchedule], Inr True)"
proof -
  let ?B = "bookingData\<lparr>DestinationID := 6\<rparr>"
  have f: "http_Get liveProcess (SpaceXAPIURL liveProcess)
      = http_Get mockProcess (SpaceXAPIURL mockProcess)"
    by (simp add: liveProcess_def mockProcess_def)
  have d: "db_destinations liveProcess = db_destinations mockProcess"
    by (simp add: liveProcess_def mockProcess_def)
  have u: "SpaceXAPIURL liveProcess \<noteq> SpaceXAPIURL mockProcess"
    by (simp add: liveProcess_def mockProcess_def)
  have l: "log_output liveProcess \<noteq> log_output mockProcess"
    by (simp add: liveProcess_def mockProcess_def)
  have z: "\<not> IsZero (LaunchDate ?B)" "\<not> IsZero (Birthday ?B)"
    using bookingData_present by simp_all
  have a: "CheckLaunchpadAvailability (feed (world_of liveProcess)) (LaunchpadID ?B) (LaunchDate ?B)
      = Inr True"
    by (simp add: world_of_def liveProcess_def bookingData_def CheckLaunchpadAvailability_def
          launch_3_def launch_2_def Parse_invalid Parse_2049_12_26 Format_2049_12_25
          Format_2049_12_26)
  have c: "CheckDestinationSchedule (destinations (world_of liveProcess)) (DestinationID ?B)
             (LaunchpadID ?B) (LaunchDate ?B) = Inr True"
    by (simp add: world_of_def liveProcess_def bookingData_def seven_6)
  have v: "validateBooking (world_of liveProcess) ?B
      = ([CallCheckLaunchpadAvailability, CallCheckDestinationSchedule], Inr True)"
    using a c by (simp add: validateBooking_present [OF z])
  note T = validate_deterministic [OF f d, of ?B]
  have e1: "snd (run_validateBooking liveProcess ?B) = snd (run_validateBooking mockProcess ?B)"
    using T by (rule conjunct1)
  have e3: "snd (run_validateBooking (fst (run_validateBooking liveProcess ?B)) ?B)
      = snd (run_validateBooking liveProcess ?B)"
    using T by (rule conjunct2 [THEN conjunct2, THEN conjunct1])
  have e4: "snd (run_validateBooking liveProcess ?B) = validateBooking (world_of liveProcess) ?B"
    using T by (rule conjunct2 [THEN conjunct2, THEN conjunct2])
  have r1: "snd (run_validateBooking liveProcess ?B)
      = ([CallCheckLaunchpadAvailability, CallCheckDestinationSchedule], Inr True)"
    by (simp only: e4 v)
  have r2: "snd (run_validateBooking mockProcess ?B)
      = ([CallCheckLaunchpadAvailability, CallCheckDestinationSchedule], Inr True)"
    by (simp only: e1 [symmetric] r1)
  have r3: "(fst (run_validateBooking liveProcess ?B))\<lparr>log_output := log_output liveProcess\<rparr>
      = liveProcess"
    using T by (rule conjunct2 [THEN conjunct1])
  have r4: "snd (run_validateBooking (fst (run_validateBooking liveProcess ?B)) ?B)
      = ([CallCheckLaunchpadAvailability, CallCheckDestinationSchedule], Inr True)"
    by (simp only: e3 r1)
  show ?thesis using f d u l r1 r2 r3 r4 by blast
qed

section \<open>Properties of the rate limiter\<close>

lemmas limiter_defs = rateLimitMiddleware_def getVisitor_def Allow_def advance_def NewLimiter_def
  requests_at_def

lemma middleware_other:
  assumes "RemoteAddr r \<noteq> a"
  shows "snd (rateLimitMiddleware r vs) a = vs a"
  using assms
  by (auto simp: rateLimitMiddleware_def getVisitor_def split: option.splits prod.splits)

lemma middleware_same:
  assumes "vs1 (RemoteAddr r) = vs2 (RemoteAddr r)"
  shows "fst (rateLimitMiddleware r vs1) = fst (rateLimitMiddleware r vs2)
       \<and> snd (rateLimitMiddleware r vs1) (RemoteAddr r) = snd (rateLimitMiddleware r vs2) (RemoteAddr r)"
  using assms
  by (auto simp: rateLimitMiddleware_def getVisitor_def split: option.splits prod.splits)

lemma fst_serve_Cons:
  "fst (serve vs (r # rs))
     = fst (rateLimitMiddleware r vs) # fst (serve (snd (rateLimitMiddleware r vs)) rs)"
  by (simp split: prod.splits)

lemma snd_serve_Cons:
  "snd (serve vs (r # rs)) = snd (serve (snd (rateLimitMiddleware r vs)) rs)"
  by (simp split: prod.splits)

lemma observed_serve:
  assumes "vs1 a = vs2 a"
  shows "observed a rs (fst (serve vs1 rs)) = fst (serve vs2 (filter (\<lambda>r. RemoteAddr r = a) rs))"
  using assms
proof (induction rs arbitrary: vs1 vs2)
  case Nil
  then show ?case by (simp add: observed_def)
next
  case (Cons r rs)
  let ?v1 = "snd (rateLimitMiddleware r vs1)"
  show ?case
  proof (cases "RemoteAddr r = a")
    case True
    let ?v2 = "snd (rateLimitMiddleware r vs2)"
    have "vs1 (RemoteAddr r) = vs2 (RemoteAddr r)" using True Cons.prems by simp
    then have eq: "fst (rateLimitMiddleware r vs1) = fst (rateLimitMiddleware r vs2)" "?v1 a = ?v2 a"
      using middleware_same [of vs1 r vs2] True by simp_all
    have "observed a rs (fst (serve ?v1 rs)) = fst (serve ?v2 (filter (\<lambda>r. RemoteAddr r = a) rs))"
      using eq(2) by (rule Cons.IH)
    then show ?thesis
      using True eq(1) by (simp add: observed_def fst_serve_Cons del: serve.simps)
  next
    case False
    have "?v1 a = vs2 a" using middleware_other [OF False, of vs1] Cons.prems by simp
    then have "observed a rs (fst (serve ?v1 rs)) = fst (serve vs2 (filter (\<lambda>r. RemoteAddr r = a) rs))"
      by (rule Cons.IH)
    then show ?thesis
      using False by (simp add: observed_def fst_serve_Cons del: serve.simps)
  qed
qed

text \<open>
  Claim C8. Admission is independent between remote addresses: in any run of requests,
  whatever the registry at its start, the outcomes that an address sees are those of the
  run of its own requests alone. The requests of other addresses, however many and
  whether admitted or not, change none of them. The addresses are compared as the strings
  they are, so two that differ only in the port are different.
\<close>

theorem admission_independent:
  "observed a rs (fst (serve vs rs)) = fst (serve vs (filter (\<lambda>r. RemoteAddr r = a) rs))"
proof -
  have "vs a = vs a" by (rule refl)
  then show ?thesis by (rule observed_serve)
qed

theorem admission_independent_witness:
  "observed ''192.0.2.1:1235''
     [\<lparr>RemoteAddr = ''192.0.2.1:1234'', now = 0\<rparr>, \<lparr>RemoteAddr = ''192.0.2.1:1234'', now = 0\<rparr>,
      \<lparr>RemoteAddr = ''192.0.2.1:1234'', now = 0\<rparr>, \<lparr>RemoteAddr = ''192.0.2.1:1234'', now = 0\<rparr>,
      \<lparr>RemoteAddr = ''192.0.2.1:1235'', now = 0\<rparr>]
     (fst (serve Map.empty
       [\<lparr>RemoteAddr = ''192.0.2.1:1234'', now = 0\<rparr>, \<lparr>RemoteAddr = ''192.0.2.1:1234'', now = 0\<rparr>,
        \<lparr>RemoteAddr = ''192.0.2.1:1234'', now = 0\<rparr>, \<lparr>RemoteAddr = ''192.0.2.1:1234'', now = 0\<rparr>,
        \<lparr>RemoteAddr = ''192.0.2.1:1235'', now = 0\<rparr>]))
   = [True]
   \<and> fst (serve Map.empty
       [\<lparr>RemoteAddr = ''192.0.2.1:1234'', now = 0\<rparr>, \<lparr>RemoteAddr = ''192.0.2.1:1234'', now = 0\<rparr>,
        \<lparr>RemoteAddr = ''192.0.2.1:1234'', now = 0\<rparr>, \<lparr>RemoteAddr = ''192.0.2.1:1234'', now = 0\<rparr>,
        \<lparr>RemoteAddr = ''192.0.2.1:1235'', now = 0\<rparr>])
     = [True, True, True, False, True]"
proof -
  have e: "fst (serve Map.empty
       [\<lparr>RemoteAddr = ''192.0.2.1:1234'', now = 0\<rparr>, \<lparr>RemoteAddr = ''192.0.2.1:1234'', now = 0\<rparr>,
        \<lparr>RemoteAddr = ''192.0.2.1:1234'', now = 0\<rparr>, \<lparr>RemoteAddr = ''192.0.2.1:1234'', now = 0\<rparr>,
        \<lparr>RemoteAddr = ''192.0.2.1:1235'', now = 0\<rparr>])
     = [True, True, True, False, True]"
    by (simp add: rateLimitMiddleware_def getVisitor_def Allow_def advance_def NewLimiter_def)
  have s: "fst (serve Map.empty [\<lparr>RemoteAddr = ''192.0.2.1:1235'', now = 0\<rparr>]) = [True]"
    by (simp add: rateLimitMiddleware_def getVisitor_def Allow_def advance_def NewLimiter_def)
  show ?thesis
    using e s admission_independent [of "''192.0.2.1:1235''"
       "[\<lparr>RemoteAddr = ''192.0.2.1:1234'', now = 0\<rparr>, \<lparr>RemoteAddr = ''192.0.2.1:1234'', now = 0\<rparr>,
        \<lparr>RemoteAddr = ''192.0.2.1:1234'', now = 0\<rparr>, \<lparr>RemoteAddr = ''192.0.2.1:1234'', now = 0\<rparr>,
        \<lparr>RemoteAddr = ''192.0.2.1:1235'', now = 0\<rparr>]" Map.empty]
    by simp
qed

lemma fst_admits_Cons: "fst (admits bk (t # ts)) = fst (Allow t bk) # fst (admits (snd (Allow t bk)) ts)"
  by (simp split: prod.splits)

lemma snd_admits_Cons: "snd (admits bk (t # ts)) = snd (admits (snd (Allow t bk)) ts)"
  by (simp split: prod.splits)

lemma bucket_ok_New: "bucket_ok (NewLimiter 1 3)"
  by (simp add: bucket_ok_def NewLimiter_def)

lemma advance_bounds:
  assumes "bucket_ok bk"
  shows "0 \<le> advance t bk \<and> advance t bk \<le> 3"
  using assms by (auto simp: bucket_ok_def advance_def min_def max_def)

lemma bucket_ok_Allow:
  assumes "bucket_ok bk"
  shows "bucket_ok (snd (Allow t bk))"
  using assms advance_bounds [OF assms, of t] by (auto simp: Allow_def bucket_ok_def)

lemma bucket_ok_admits:
  assumes "bucket_ok bk"
  shows "bucket_ok (snd (admits bk ts))"
  using assms
proof (induction ts arbitrary: bk)
  case Nil
  then show ?case by simp
next
  case (Cons t ts)
  then show ?case by (simp only: snd_admits_Cons bucket_ok_Allow)
qed

lemma Allow_New: "fst (Allow t (NewLimiter 1 3)) = True"
  by (simp add: Allow_def advance_def NewLimiter_def)

lemma advance_step:
  assumes "bucket_ok bk" and "t \<le> t'"
  shows "advance t' (snd (Allow t bk)) + (if fst (Allow t bk) then 1 else 0)
           \<le> advance t bk + (t' - t)"
  using assms by (auto simp: Allow_def advance_def bucket_ok_def min_def max_def)

lemma admitted_bound:
  assumes "bucket_ok bk" and "sorted (t # ts)"
  shows "real (count_admitted (fst (admits bk (t # ts)))) \<le> advance t bk + (last (t # ts) - t)"
  using assms
proof (induction ts arbitrary: bk t)
  case Nil
  then show ?case
    using advance_bounds [of bk t] by (auto simp: count_admitted_def Allow_def split: prod.splits)
next
  case (Cons t' ts)
  let ?bk = "snd (Allow t bk)"
  have le: "t \<le> t'" and srt: "sorted (t' # ts)" using Cons.prems(2) by simp_all
  have ok: "bucket_ok ?bk" using Cons.prems(1) by (rule bucket_ok_Allow)
  have ih: "real (count_admitted (fst (admits ?bk (t' # ts))))
              \<le> advance t' ?bk + (last (t' # ts) - t')"
    using ok srt by (rule Cons.IH)
  have st: "advance t' ?bk + (if fst (Allow t bk) then 1 else 0) \<le> advance t bk + (t' - t)"
    using Cons.prems(1) le by (rule advance_step)
  have c: "real (count_admitted (fst (admits bk (t # t' # ts))))
      = (if fst (Allow t bk) then 1 else 0) + real (count_admitted (fst (admits ?bk (t' # ts))))"
    by (simp add: count_admitted_def fst_admits_Cons del: admits.simps)
  have l: "last (t # t' # ts) = last (t' # ts)" by simp
  show ?case using ih st unfolding c l by linarith
qed

lemma window_bound:
  assumes "bucket_ok bk" and "sorted win" and "win \<noteq> []" and "last win - hd win < 1"
  shows "count_admitted (fst (admits bk win)) \<le> 3"
proof -
  obtain t ts where w: "win = t # ts" using assms(3) by (cases win) auto
  have "real (count_admitted (fst (admits bk (t # ts)))) \<le> advance t bk + (last (t # ts) - t)"
    using assms(1,2) unfolding w by (rule admitted_bound)
  moreover have "advance t bk \<le> 3" using advance_bounds [OF assms(1)] by simp
  moreover have "last (t # ts) - t < 1" using assms(4) unfolding w by simp
  ultimately have "real (count_admitted (fst (admits bk (t # ts)))) < 4" by linarith
  then show ?thesis unfolding w by simp
qed

lemma admits_append:
  "fst (admits bk (xs @ ys)) = fst (admits bk xs) @ fst (admits (snd (admits bk xs)) ys)"
proof (induction xs arbitrary: bk)
  case Nil
  then show ?case by simp
next
  case (Cons x xs)
  then show ?case by (simp add: fst_admits_Cons snd_admits_Cons del: admits.simps)
qed

lemma length_admits: "length (fst (admits bk ts)) = length ts"
proof (induction ts arbitrary: bk)
  case Nil
  then show ?case by simp
next
  case (Cons t ts)
  then show ?case by (simp add: fst_admits_Cons del: admits.simps)
qed

lemma middleware_seen:
  assumes "vs a = Some bk"
  shows "rateLimitMiddleware \<lparr>RemoteAddr = a, now = t\<rparr> vs
           = (fst (Allow t bk), vs(a \<mapsto> snd (Allow t bk)))"
  using assms by (simp add: rateLimitMiddleware_def getVisitor_def split: prod.splits)

lemma middleware_unseen:
  assumes "vs a = None"
  shows "rateLimitMiddleware \<lparr>RemoteAddr = a, now = t\<rparr> vs
           = (fst (Allow t (NewLimiter 1 3)), vs(a \<mapsto> snd (Allow t (NewLimiter 1 3))))"
  using assms by (simp add: rateLimitMiddleware_def getVisitor_def split: prod.splits)

lemma serve_seen:
  assumes "vs a = Some bk"
  shows "fst (serve vs (requests_at a ts)) = fst (admits bk ts)
       \<and> (ts \<noteq> [] \<longrightarrow> snd (serve vs (requests_at a ts)) a = Some (snd (admits bk ts)))"
  using assms
proof (induction ts arbitrary: vs bk)
  case Nil
  then show ?case by (simp add: requests_at_def)
next
  case (Cons t ts)
  let ?r = "\<lparr>RemoteAddr = a, now = t\<rparr>"
  let ?vs = "vs(a \<mapsto> snd (Allow t bk))"
  have m: "rateLimitMiddleware ?r vs = (fst (Allow t bk), ?vs)"
    using Cons.prems by (rule middleware_seen)
  have s: "?vs a = Some (snd (Allow t bk))" by simp
  have ih: "fst (serve ?vs (requests_at a ts)) = fst (admits (snd (Allow t bk)) ts)
       \<and> (ts \<noteq> [] \<longrightarrow> snd (serve ?vs (requests_at a ts)) a = Some (snd (admits (snd (Allow t bk)) ts)))"
    using s by (rule Cons.IH)
  have r: "requests_at a (t # ts) = ?r # requests_at a ts"
    by (simp add: requests_at_def)
  have f: "fst (serve vs (requests_at a (t # ts))) = fst (admits bk (t # ts))"
    using ih by (simp add: r fst_serve_Cons fst_admits_Cons m del: serve.simps admits.simps)
  have g: "snd (serve vs (requests_at a (t # ts))) a = Some (snd (admits bk (t # ts)))"
  proof (cases "ts = []")
    case True
    then show ?thesis by (simp add: r m requests_at_def split: prod.splits)
  next
    case False
    then show ?thesis
      using ih by (simp add: r snd_serve_Cons snd_admits_Cons m del: serve.simps admits.simps)
  qed
  show ?case using f g by simp
qed

lemma serve_unseen:
  assumes "vs a = None"
  shows "fst (serve vs (requests_at a ts)) = fst (admits (NewLimiter 1 3) ts)
       \<and> (ts \<noteq> [] \<longrightarrow> snd (serve vs (requests_at a ts)) a = Some (snd (admits (NewLimiter 1 3) ts)))"
proof (cases ts)
  case Nil
  then show ?thesis by (simp add: requests_at_def)
next
  case (Cons t ts')
  let ?r = "\<lparr>RemoteAddr = a, now = t\<rparr>"
  let ?bk = "NewLimiter 1 3"
  let ?vs = "vs(a \<mapsto> snd (Allow t ?bk))"
  have m: "rateLimitMiddleware ?r vs = (fst (Allow t ?bk), ?vs)"
    using assms by (rule middleware_unseen)
  have s: "?vs a = Some (snd (Allow t ?bk))" by simp
  note ih = serve_seen [of ?vs a "snd (Allow t ?bk)" ts', OF s]
  have r: "requests_at a (t # ts') = ?r # requests_at a ts'"
    by (simp add: requests_at_def)
  have f: "fst (serve vs (requests_at a (t # ts'))) = fst (admits ?bk (t # ts'))"
    using ih by (simp add: r fst_serve_Cons fst_admits_Cons m del: serve.simps admits.simps)
  have g: "snd (serve vs (requests_at a (t # ts'))) a = Some (snd (admits ?bk (t # ts')))"
  proof (cases "ts' = []")
    case True
    then show ?thesis by (simp add: r m requests_at_def split: prod.splits)
  next
    case False
    then show ?thesis
      using ih by (simp add: r snd_serve_Cons snd_admits_Cons m del: serve.simps admits.simps)
  qed
  show ?thesis using f g by (simp add: Cons)
qed

lemma denied_no_effect:
  assumes "fst (rateLimitMiddleware r vs) = False"
  shows "snd (rateLimitMiddleware r vs) = vs"
proof (cases "vs (RemoteAddr r)")
  case None
  then have "fst (rateLimitMiddleware r vs) = fst (Allow (now r) (NewLimiter 1 3))"
    by (simp add: rateLimitMiddleware_def getVisitor_def split: prod.splits)
  then show ?thesis using assms by (simp add: Allow_New)
next
  case (Some bk)
  then have m: "rateLimitMiddleware r vs
      = (fst (Allow (now r) bk), vs(RemoteAddr r \<mapsto> snd (Allow (now r) bk)))"
    by (simp add: rateLimitMiddleware_def getVisitor_def split: prod.splits)
  then have "fst (Allow (now r) bk) = False" using assms by simp
  then have "snd (Allow (now r) bk) = bk" by (simp add: Allow_def split: if_splits)
  then show ?thesis using m Some by (simp add: fun_upd_idem)
qed

lemma reachable_bucket_ok:
  assumes "vs a = None" and "snd (serve vs (requests_at a pre)) a = Some bk"
  shows "bucket_ok bk"
proof (cases "pre = []")
  case True
  then show ?thesis using assms by (simp add: requests_at_def)
next
  case False
  then have "snd (serve vs (requests_at a pre)) a = Some (snd (admits (NewLimiter 1 3) pre))"
    using serve_unseen [of vs a pre] assms(1) by simp
  then have "bk = snd (admits (NewLimiter 1 3) pre)" using assms(2) by simp
  then show ?thesis using bucket_ok_admits [OF bucket_ok_New] by simp
qed

lemma waited_allowed:
  assumes "bucket_ok bk" and "lastRefill bk + 1 \<le> t"
  shows "fst (Allow t bk) = True"
  using assms by (auto simp: Allow_def advance_def bucket_ok_def min_def max_def)

lemma waited_exactly_one:
  assumes "bucket_ok bk" and "lastRefill bk + 1 \<le> t" and "tokens bk + (t - lastRefill bk) < 2"
  shows "fst (admits bk [t, t]) = [True, False]"
  using assms by (auto simp: Allow_def advance_def bucket_ok_def min_def max_def)

lemma window_of_run:
  assumes "vs a = None" and "sorted win" and "win \<noteq> []" and "last win - hd win < 1"
  shows "count_admitted (take (length win) (drop (length pre)
           (fst (serve vs (requests_at a (pre @ win @ post)))))) \<le> 3"
proof -
  let ?bk = "snd (admits (NewLimiter 1 3) pre)"
  have "fst (serve vs (requests_at a (pre @ win @ post)))
      = fst (admits (NewLimiter 1 3) (pre @ win @ post))"
    using serve_unseen [of vs a "pre @ win @ post"] assms(1) by simp
  also have "\<dots> = fst (admits (NewLimiter 1 3) pre) @ fst (admits ?bk win)
       @ fst (admits (snd (admits ?bk win)) post)"
    by (simp add: admits_append)
  finally have "take (length win) (drop (length pre)
           (fst (serve vs (requests_at a (pre @ win @ post))))) = fst (admits ?bk win)"
    by (simp add: length_admits)
  moreover have "bucket_ok ?bk" using bucket_ok_New by (rule bucket_ok_admits)
  ultimately show ?thesis using window_bound [OF _ assms(2,3,4)] by simp
qed

text \<open>
  Claim C2, as amended. For an address that the registry has not seen, and any run of its
  requests: among the requests of a window shorter than one second, at any place of the
  run, at most three are admitted; a request made at least one second after the last
  admission is admitted; when moreover fewer than two tokens have accrued by then, a
  second request at the same moment is denied, so that exactly one more is admitted; and
  a denied request leaves the registry as it was.
\<close>

theorem token_bucket_admission:
  assumes "vs a = None"
  shows "(sorted win \<and> win \<noteq> [] \<and> last win - hd win < 1 \<longrightarrow>
            count_admitted (take (length win) (drop (length pre)
              (fst (serve vs (requests_at a (pre @ win @ post)))))) \<le> 3)
       \<and> (snd (serve vs (requests_at a pre)) a = Some bk \<and> lastRefill bk + 1 \<le> t \<longrightarrow>
            fst (rateLimitMiddleware \<lparr>RemoteAddr = a, now = t\<rparr>
                  (snd (serve vs (requests_at a pre)))) = True)
       \<and> (snd (serve vs (requests_at a pre)) a = Some bk \<and> lastRefill bk + 1 \<le> t
            \<and> tokens bk + (t - lastRefill bk) < 2 \<longrightarrow>
            fst (serve (snd (serve vs (requests_at a pre))) (requests_at a [t, t]))
              = [True, False])
       \<and> (fst (rateLimitMiddleware r vs') = False \<longrightarrow> snd (rateLimitMiddleware r vs') = vs')"
proof -
  let ?vs = "snd (serve vs (requests_at a pre))"
  have A: "count_admitted (take (length win) (drop (length pre)
              (fst (serve vs (requests_at a (pre @ win @ post)))))) \<le> 3"
    if "sorted win \<and> win \<noteq> [] \<and> last win - hd win < 1"
    using that window_of_run [of vs a win pre post] assms by blast
  have B: "fst (rateLimitMiddleware \<lparr>RemoteAddr = a, now = t\<rparr> ?vs) = True"
    if h: "?vs a = Some bk \<and> lastRefill bk + 1 \<le> t"
  proof -
    have "bucket_ok bk" using assms h reachable_bucket_ok by blast
    then have "fst (Allow t bk) = True" using h waited_allowed by blast
    then show ?thesis using h by (simp add: middleware_seen)
  qed
  have B': "fst (serve ?vs (requests_at a [t, t])) = [True, False]"
    if h: "?vs a = Some bk \<and> lastRefill bk + 1 \<le> t \<and> tokens bk + (t - lastRefill bk) < 2"
  proof -
    have "bucket_ok bk" using assms h reachable_bucket_ok by blast
    then have "fst (admits bk [t, t]) = [True, False]" using h waited_exactly_one by blast
    moreover have "fst (serve ?vs (requests_at a [t, t])) = fst (admits bk [t, t])"
      using h serve_seen [of ?vs a bk "[t, t]"] by blast
    ultimately show ?thesis by simp
  qed
  have C: "snd (rateLimitMiddleware r vs') = vs'" if "fst (rateLimitMiddleware r vs') = False"
    using that by (rule denied_no_effect)
  show ?thesis using A B B' C by blast
qed

theorem token_bucket_admission_witness:
  "Map.empty ''192.0.2.1:1234'' = (None :: Limiter option)
   \<and> sorted [0, 0, 0, 0 :: real] \<and> [0, 0, 0, 0 :: real] \<noteq> []
   \<and> last [0, 0, 0, 0 :: real] - hd [0, 0, 0, 0] < 1
   \<and> fst (serve Map.empty (requests_at ''192.0.2.1:1234'' [0, 0, 0, 0]))
        = [True, True, True, False]
   \<and> count_admitted (fst (serve Map.empty (requests_at ''192.0.2.1:1234'' [0, 0, 0, 0]))) \<le> 3
   \<and> snd (serve Map.empty (requests_at ''192.0.2.1:1234'' [0, 0, 0, 0])) ''192.0.2.1:1234''
        = Some \<lparr>limit = 1, burst = 3, tokens = 0, lastRefill = 0\<rparr>
   \<and> fst (rateLimitMiddleware \<lparr>RemoteAddr = ''192.0.2.1:1234'', now = 1\<rparr>
             (snd (serve Map.empty (requests_at ''192.0.2.1:1234'' [0, 0, 0, 0])))) = True
   \<and> fst (serve (snd (serve Map.empty (requests_at ''192.0.2.1:1234'' [0, 0, 0, 0])))
             (requests_at ''192.0.2.1:1234'' [1, 1])) = [True, False]
   \<and> fst (rateLimitMiddleware \<lparr>RemoteAddr = ''192.0.2.1:1234'', now = 0\<rparr>
             (snd (serve Map.empty (requests_at ''192.0.2.1:1234'' [0, 0, 0])))) = False
   \<and> snd (rateLimitMiddleware \<lparr>RemoteAddr = ''192.0.2.1:1234'', now = 0\<rparr>
             (snd (serve Map.empty (requests_at ''192.0.2.1:1234'' [0, 0, 0]))))
        = snd (serve Map.empty (requests_at ''192.0.2.1:1234'' [0, 0, 0]))"
proof -
  let ?a = "''192.0.2.1:1234''"
  let ?bk = "\<lparr>limit = 1, burst = 3, tokens = 0, lastRefill = 0\<rparr>"
  let ?V4 = "snd (serve Map.empty (requests_at ?a [0, 0, 0, 0]))"
  let ?V3 = "snd (serve Map.empty (requests_at ?a [0, 0, 0]))"
  let ?r = "\<lparr>RemoteAddr = ?a, now = 0\<rparr>"
  have u: "Map.empty ?a = (None :: Limiter option)" by simp
  have w: "sorted [0, 0, 0, 0 :: real] \<and> [0, 0, 0, 0 :: real] \<noteq> []
      \<and> last [0, 0, 0, 0 :: real] - hd [0, 0, 0, 0] < 1" by simp
  have o: "fst (serve Map.empty (requests_at ?a [0, 0, 0, 0])) = [True, True, True, False]"
    by (simp add: limiter_defs)
  have b: "?V4 ?a = Some ?bk" by (simp add: limiter_defs)
  have h: "lastRefill ?bk + 1 \<le> 1 \<and> tokens ?bk + (1 - lastRefill ?bk) < 2" by simp
  have d: "fst (rateLimitMiddleware ?r ?V3) = False" by (simp add: limiter_defs)
  note T1 = token_bucket_admission [where vs = Map.empty and a = ?a and win = "[0, 0, 0, 0]"
      and pre = "[]" and post = "[]" and bk = ?bk and t = 1 and r = ?r and vs' = ?V3, OF u]
  note T2 = token_bucket_admission [where vs = Map.empty and a = ?a and win = "[0, 0, 0, 0]"
      and pre = "[0, 0, 0, 0]" and post = "[]" and bk = ?bk and t = 1 and r = ?r and vs' = ?V3,
      OF u]
  have A: "count_admitted (fst (serve Map.empty (requests_at ?a [0, 0, 0, 0]))) \<le> 3"
    using T1 [THEN conjunct1] w by (simp add: o)
  have B: "fst (rateLimitMiddleware \<lparr>RemoteAddr = ?a, now = 1\<rparr> ?V4) = True"
    using T2 [THEN conjunct2, THEN conjunct1] b h by blast
  have B': "fst (serve ?V4 (requests_at ?a [1, 1])) = [True, False]"
    using T2 [THEN conjunct2, THEN conjunct2, THEN conjunct1] b h by blast
  have C: "snd (rateLimitMiddleware ?r ?V3) = ?V3"
    using T2 [THEN conjunct2, THEN conjunct2, THEN conjunct2] d by blast
  show ?thesis using u w o A b B B' d C by blast
qed

text \<open>
  The claim as stated, that exactly one more admission succeeds after any wait of at least
  one second, fails: after three admissions and a denial at time 0, a wait of two seconds
  lets two more requests in.
\<close>

theorem token_bucket_admission_counterexample:
  "fst (serve Map.empty (requests_at ''192.0.2.1:1234'' [0, 0, 0, 0, 2, 2, 2]))
     = [True, True, True, False, True, True, False]"
  by (simp add: limiter_defs)

end
